theory Spec2Isabelle
  imports Complex_Main "HOL-Library.Sublist"
begin

section \<open>Data model of \<open>ml/utils/loading.py\<close>\<close>

text \<open>
  The tables handled by \<open>Loader.loading\<close> are pandas data frames with numeric columns.
  A frame is modelled by its column names and its rows; every row of a well-formed frame
  has one entry per column. Numbers are modelled as reals, and the not-a-number results
  that pandas returns for the mean of an empty column and for the sample standard
  deviation of a column with fewer than two entries are modelled by \<open>None\<close>.
\<close>

datatype error =
    TypeError
  | AttributeError
  | KeyError string
  | IndexError
  | UnboundLocalError
  | ValueError string
  | EnvError string

type_synonym row = "real list"

record dataframe =
  columns :: "string list"
  rows :: "row list"

record ndarray =
  ncols :: nat
  arows :: "row list"

definition wf_df :: "dataframe \<Rightarrow> bool" where
  "wf_df df = list_all (\<lambda>r. length r = length (columns df)) (rows df)"

definition df_values :: "dataframe \<Rightarrow> ndarray" where
  "df_values df = \<lparr>ncols = length (columns df), arows = rows df\<rparr>"

definition df_len :: "dataframe \<Rightarrow> nat" where
  "df_len df = length (rows df)"

fun index_of :: "string \<Rightarrow> string list \<Rightarrow> nat option" where
  "index_of c [] = None"
| "index_of c (d # ds) = (if c = d then Some 0 else map_option Suc (index_of c ds))"

definition and_then :: "error + 'a \<Rightarrow> ('a \<Rightarrow> error + 'b) \<Rightarrow> error + 'b" where
  "and_then m f = (case m of Inl e \<Rightarrow> Inl e | Inr a \<Rightarrow> f a)"

definition effect :: "error option \<Rightarrow> error + unit" where
  "effect r = (case r of Some e \<Rightarrow> Inl e | None \<Rightarrow> Inr ())"

definition colindex :: "dataframe \<Rightarrow> string \<Rightarrow> error + nat" where
  "colindex df c = (case index_of c (columns df) of None \<Rightarrow> Inl (KeyError c) | Some i \<Rightarrow> Inr i)"

definition column_values :: "dataframe \<Rightarrow> nat \<Rightarrow> real list" where
  "column_values df i = map (\<lambda>r. r ! i) (rows df)"

section \<open>Column statistics\<close>

definition mean :: "real list \<Rightarrow> real option" where
  "mean xs = (if xs = [] then None else Some (sum_list xs / real (length xs)))"

definition std :: "real list \<Rightarrow> real option" where
  "std xs =
     (if length xs \<le> 1 then None
      else Some (sqrt (sum_list (map (\<lambda>x. (x - sum_list xs / real (length xs))\<^sup>2) xs)
                       / real (length xs - 1))))"

definition nan_mul :: "real option \<Rightarrow> real \<Rightarrow> real option" where
  "nan_mul a k = map_option (\<lambda>v. v * k) a"

definition nan_add :: "real option \<Rightarrow> real option \<Rightarrow> real option" where
  "nan_add a b = (case a of None \<Rightarrow> None | Some u \<Rightarrow> map_option (\<lambda>v. u + v) b)"

definition nan_sub :: "real option \<Rightarrow> real option \<Rightarrow> real option" where
  "nan_sub a b = (case a of None \<Rightarrow> None | Some u \<Rightarrow> map_option (\<lambda>v. u - v) b)"

definition lt_lim :: "real \<Rightarrow> real option \<Rightarrow> bool" where
  "lt_lim v b = (case b of None \<Rightarrow> False | Some u \<Rightarrow> v < u)"

definition gt_lim :: "real \<Rightarrow> real option \<Rightarrow> bool" where
  "gt_lim v b = (case b of None \<Rightarrow> False | Some l \<Rightarrow> v > l)"

section \<open>Preprocessing (lines 126 to 143)\<close>

definition factor :: real where
  "factor = 3"

definition mask_rows :: "dataframe \<Rightarrow> nat \<Rightarrow> real option \<Rightarrow> real option \<Rightarrow> dataframe" where
  "mask_rows df i upper_lim lower_lim =
     df\<lparr>rows := filter (\<lambda>r. lt_lim (r ! i) upper_lim \<and> gt_lim (r ! i) lower_lim) (rows df)\<rparr>"

definition filter_column ::
  "string \<Rightarrow> dataframe \<Rightarrow> dataframe \<Rightarrow> error + (dataframe \<times> dataframe)" where
  "filter_column column x0 x1 =
     and_then (colindex x0 column) (\<lambda>i0.
     and_then (colindex x1 column) (\<lambda>i1.
       (let c0 = column_values x0 i0;
            c1 = column_values x1 i1;
            upper_lim = nan_add (mean c0) (nan_mul (std c0) factor);
            upper_lim = nan_add (mean c1) (nan_mul (std c1) factor);
            lower_lim = nan_sub (mean c0) (nan_mul (std c0) factor);
            lower_lim = nan_sub (mean c1) (nan_mul (std c1) factor)
        in Inr (mask_rows x0 i0 upper_lim lower_lim, mask_rows x1 i1 upper_lim lower_lim))))"

fun filter_columns ::
  "string list \<Rightarrow> dataframe \<Rightarrow> dataframe \<Rightarrow> error + (dataframe \<times> dataframe)" where
  "filter_columns [] x0 x1 = Inr (x0, x1)"
| "filter_columns (column # cs) x0 x1 =
     (case filter_column column x0 x1 of
        Inl e \<Rightarrow> Inl e
      | Inr (a, b) \<Rightarrow> filter_columns cs a b)"

definition rint :: "real \<Rightarrow> int" where
  "rint v =
     (let f = \<lfloor>v\<rfloor>; d = v - of_int f
      in if d < 1 / 2 then f else if 1 / 2 < d then f + 1 else if even f then f else f + 1)"

definition round2 :: "real \<Rightarrow> real" where
  "round2 v = of_int (rint (v * 100)) / 100"

definition round_df :: "dataframe \<Rightarrow> dataframe" where
  "round_df df = df\<lparr>rows := map (map round2) (rows df)\<rparr>"

definition preprocess ::
  "string list \<Rightarrow> dataframe \<Rightarrow> dataframe \<Rightarrow> error + (dataframe \<times> dataframe)" where
  "preprocess variables x0 x1 =
     (case filter_columns variables x0 x1 of
        Inl e \<Rightarrow> Inl e
      | Inr (a, b) \<Rightarrow> Inr (round_df a, round_df b))"

section \<open>Collaborators outside the module\<close>

text \<open>
  \<open>loading\<close> calls helpers of the sibling modules \<open>tools\<close> and \<open>plotting\<close> and the
  libraries numpy, seaborn, matplotlib and scikit-learn. Their outcomes are parameters of
  the model: the folder helper, the ROOT file reader, the plotting calls (each may fail),
  the draws of numpy's global random generator (the \<open>k\<close>-th uniform sample, the \<open>k\<close>-th
  integer draw for a population size) and the permutation scikit-learn derives from the
  fixed seed 42 for a given number of samples.
\<close>

text \<open>
  Left out of the model: the \<open>print\<close> calls, the axis labels and bin edges (constants
  handed to the plotting helper), failures of \<open>np.save\<close>, and files already written when a
  later step fails (an error replaces the whole result).
\<close>

record env =
  env_create_missing_folders :: "string list \<Rightarrow> error option"
  env_load :: "string \<Rightarrow> string list \<Rightarrow> error + dataframe"
  env_random_sample :: "nat \<Rightarrow> real"
  env_randint :: "nat \<Rightarrow> nat \<Rightarrow> nat"
  env_permutation42 :: "nat \<Rightarrow> nat list"
  env_heatmap :: "dataframe \<Rightarrow> error option"
  env_savefig :: "string \<Rightarrow> error option"
  env_draw_unweighted_distributions ::
    "ndarray \<Rightarrow> ndarray \<Rightarrow> string list \<Rightarrow> string \<times> string \<Rightarrow> bool \<Rightarrow> error option"

section \<open>numpy operations used by \<open>loading\<close>\<close>

definition take_rows :: "row list \<Rightarrow> nat list \<Rightarrow> error + row list" where
  "take_rows rs idx =
     (if list_ex (\<lambda>i. length rs \<le> i) idx then Inl IndexError
      else Inr (map (\<lambda>i. rs ! i) idx))"

definition head_rows :: "nat \<Rightarrow> row list \<Rightarrow> row list" where
  "head_rows n rs = take n rs"

definition tail_rows :: "nat \<Rightarrow> row list \<Rightarrow> row list" where
  "tail_rows n rs = (if n = 0 then rs else drop (length rs - n) rs)"

fun cumsum :: "real \<Rightarrow> real list \<Rightarrow> real list" where
  "cumsum acc [] = []"
| "cumsum acc (x # xs) = (acc + x) # cumsum (acc + x) xs"

definition searchsorted_right :: "real list \<Rightarrow> real \<Rightarrow> nat" where
  "searchsorted_right cdf u = length (filter (\<lambda>c. c \<le> u) cdf)"

definition choice :: "env \<Rightarrow> nat \<Rightarrow> nat \<Rightarrow> nat \<Rightarrow> error + nat list" where
  "choice e pos pop_size n_draws =
     (if pop_size = 0 \<and> n_draws \<noteq> 0 then Inl (ValueError ''a cannot be empty'')
      else Inr (map (\<lambda>k. env_randint e (pos + k) pop_size) [0..<n_draws]))"

definition choice_p :: "env \<Rightarrow> nat \<Rightarrow> nat \<Rightarrow> int \<Rightarrow> real list option \<Rightarrow> error + nat list" where
  "choice_p e pos pop_size n_draws p =
     (if pop_size = 0 \<and> n_draws \<noteq> 0 then Inl (ValueError ''a cannot be empty'')
      else case p of
        None \<Rightarrow> Inl (ValueError ''probabilities contain NaN'')
      | Some ps \<Rightarrow>
          if length ps \<noteq> pop_size then Inl (ValueError ''a and p must have same size'')
          else if list_ex (\<lambda>v. v < 0) ps then Inl (ValueError ''probabilities are not non-negative'')
          else if sum_list ps \<noteq> 1 then Inl (ValueError ''probabilities do not sum to 1'')
          else if n_draws < 0 then Inl (ValueError ''negative dimensions are not allowed'')
          else
            (let cdf = cumsum 0 ps;
                 cdf = map (\<lambda>c. c / last cdf) cdf
             in Inr (map (\<lambda>k. searchsorted_right cdf (env_random_sample e (pos + k)))
                         [0..<nat n_draws])))"

definition vstack :: "ndarray \<Rightarrow> ndarray \<Rightarrow> error + ndarray" where
  "vstack a b =
     (if ncols a \<noteq> ncols b then Inl (ValueError ''vstack'')
      else Inr \<lparr>ncols = ncols a, arows = arows a @ arows b\<rparr>)"

definition int_trunc :: "real \<Rightarrow> int" where
  "int_trunc v = (if 0 \<le> v then \<lfloor>v\<rfloor> else \<lceil>v\<rceil>)"

section \<open>scikit-learn's \<open>train_test_split\<close> with a float test size and seed 42\<close>

definition train_test_split ::
  "env \<Rightarrow> ndarray \<Rightarrow> ndarray \<Rightarrow> real \<Rightarrow> error + (ndarray \<times> ndarray \<times> ndarray \<times> ndarray)" where
  "train_test_split e x y test_size =
     (let n_samples = length (arows x);
          n_test = nat \<lceil>test_size * real n_samples\<rceil>;
          n_train = n_samples - n_test
      in if n_train = 0 then Inl (ValueError ''the resulting train set will be empty'')
         else
           (let permutation = env_permutation42 e n_samples;
                ind_test = take n_test permutation;
                ind_train = take n_train (drop n_test permutation)
            in and_then (take_rows (arows x) ind_train) (\<lambda>x_train.
               and_then (take_rows (arows x) ind_test) (\<lambda>x_test.
               and_then (take_rows (arows y) ind_train) (\<lambda>y_train.
               and_then (take_rows (arows y) ind_test) (\<lambda>y_test.
                 Inr (x\<lparr>arows := x_train\<rparr>, x\<lparr>arows := x_test\<rparr>,
                      y\<lparr>arows := y_train\<rparr>, y\<lparr>arows := y_test\<rparr>)))))))"

section \<open>\<open>Loader.loading\<close>\<close>

subsection \<open>Scenario tables and sample loading (lines 73 to 105)\<close>

definition variables_default :: "string list" where
  "variables_default = [''Njets'', ''j1pT'', ''j1eta'', ''ptmiss'', ''VpT'', ''Veta'']"

definition variables_qsf :: "string list" where
  "variables_qsf = [''Njets'', ''j1pT'', ''j1eta'', ''ptmiss'', ''l1pT'', ''l1eta'']"

record locals =
  l_variables :: "string list"
  l_legend :: "(string \<times> string) option"
  l_x0 :: "dataframe option"
  l_x1 :: "dataframe option"
  l_rng :: nat

definition truthWeight :: "dataframe \<Rightarrow> error + real list" where
  "truthWeight wx =
     (case index_of ''truthWeight'' (columns wx) of
        None \<Rightarrow> Inl AttributeError
      | Some i \<Rightarrow> Inr (column_values wx i))"

text \<open>
  Line 92: the weights divided by their sum. A zero sum of a non-empty column divides by
  zero, which numpy turns into not-a-number or infinite entries (\<open>None\<close>).
\<close>

definition normalise :: "real list \<Rightarrow> real list option" where
  "normalise w =
     (if sum_list w = 0 \<and> w \<noteq> [] then None else Some (map (\<lambda>v. v / sum_list w) w))"

definition resample_size :: "real list \<Rightarrow> int" where
  "resample_size w = int_trunc (sum_list w)"

definition draw_indices :: "env \<Rightarrow> nat \<Rightarrow> dataframe \<Rightarrow> real list \<Rightarrow> error + nat list" where
  "draw_indices e pos x w = choice_p e pos (df_len x) (resample_size w) (normalise w)"

definition iloc :: "dataframe \<Rightarrow> nat list \<Rightarrow> error + dataframe" where
  "iloc df idx = and_then (take_rows (rows df) idx) (\<lambda>rs. Inr (df\<lparr>rows := rs\<rparr>))"

definition mur1_file :: string where
  "mur1_file = ''/eos/user/m/mvesterb/data/MUR1_MUF1_PDF261000.root''"

definition mur2_file :: string where
  "mur2_file = ''/eos/user/m/mvesterb/data/MUR2_MUF1_PDF261000.root''"

definition load_mur :: "env \<Rightarrow> error + (dataframe \<times> dataframe \<times> nat)" where
  "load_mur e =
     and_then (env_load e mur1_file variables_default) (\<lambda>x0.
     and_then (env_load e mur2_file variables_default) (\<lambda>x1.
     and_then (env_load e mur1_file [''truthWeight'']) (\<lambda>wx0.
     and_then (env_load e mur2_file [''truthWeight'']) (\<lambda>wx1.
     and_then (truthWeight wx0) (\<lambda>w0.
     and_then (truthWeight wx1) (\<lambda>w1.
     and_then (draw_indices e 0 x0 w0) (\<lambda>i0.
     and_then (draw_indices e (length i0) x1 w1) (\<lambda>i1.
     and_then (iloc x0 i0) (\<lambda>x0.
     and_then (iloc x1 i1) (\<lambda>x1.
       Inr (x0, x1, length i0 + length i1)))))))))))"

definition load_samples ::
  "env \<Rightarrow> string \<Rightarrow> dataframe option \<Rightarrow> dataframe option \<Rightarrow> error + locals" where
  "load_samples e do x0 x1 =
     (if do = ''sherpaVsMG5'' then
        (if x0 = None \<and> x1 = None then
           and_then (env_load e ''/eos/user/m/mvesterb/data/sherpa/Nominal.root'' variables_default) (\<lambda>a.
           and_then (env_load e ''/eos/user/m/mvesterb/data/madgraph/Nominal.root'' variables_default) (\<lambda>b.
             Inr \<lparr>l_variables = variables_default, l_legend = Some (''Sherpa'', ''MG5''),
                  l_x0 = Some a, l_x1 = Some b, l_rng = 0\<rparr>))
         else Inr \<lparr>l_variables = variables_default, l_legend = Some (''Sherpa'', ''MG5''),
                   l_x0 = x0, l_x1 = x1, l_rng = 0\<rparr>)
      else if do = ''mur'' then
        (if x0 = None \<and> x1 = None then
           and_then (load_mur e) (\<lambda>(a, b, pos).
             Inr \<lparr>l_variables = variables_default, l_legend = Some (''MUR1'', ''MUR2''),
                  l_x0 = Some a, l_x1 = Some b, l_rng = pos\<rparr>)
         else Inr \<lparr>l_variables = variables_default, l_legend = Some (''MUR1'', ''MUR2''),
                   l_x0 = x0, l_x1 = x1, l_rng = 0\<rparr>)
      else if do = ''qsf'' then
        (if x0 = None \<and> x1 = None then
           and_then (env_load e ''/eos/user/m/mvesterb/data/qsfup/Nominal.root'' variables_qsf) (\<lambda>a.
           and_then (env_load e ''/eos/user/m/mvesterb/data/qsfdown/Nominal.root'' variables_qsf) (\<lambda>b.
             Inr \<lparr>l_variables = variables_qsf, l_legend = Some (''qsfUp'', ''qsfDown''),
                  l_x0 = Some a, l_x1 = Some b, l_rng = 0\<rparr>))
         else Inr \<lparr>l_variables = variables_qsf, l_legend = Some (''qsfUp'', ''qsfDown''),
                   l_x0 = x0, l_x1 = x1, l_rng = 0\<rparr>)
      else Inr \<lparr>l_variables = variables_default, l_legend = None,
                l_x0 = x0, l_x1 = x1, l_rng = 0\<rparr>)"

subsection \<open>Train and test slices of the first table (lines 108 to 115)\<close>

definition split_x0 ::
  "env \<Rightarrow> nat \<Rightarrow> bool \<Rightarrow> dataframe option \<Rightarrow> dataframe option
     \<Rightarrow> error + (ndarray \<times> ndarray \<times> dataframe \<times> dataframe)" where
  "split_x0 e pos randomize x0 x1 =
     (case x1 of
        None \<Rightarrow> Inl AttributeError
      | Some t1 \<Rightarrow>
        (let n_target = length (arows (df_values t1))
         in case x0 of
              None \<Rightarrow> Inl AttributeError
            | Some t0 \<Rightarrow>
                if randomize then
                  and_then (choice e pos (length (arows (df_values t0))) (2 * n_target)) (\<lambda>idx.
                  and_then (take_rows (arows (df_values t0)) idx) (\<lambda>randomized.
                    Inr (\<lparr>ncols = ncols (df_values t0), arows = head_rows n_target randomized\<rparr>,
                         \<lparr>ncols = ncols (df_values t0), arows = tail_rows n_target randomized\<rparr>,
                         t0, t1)))
                else
                  Inr (\<lparr>ncols = ncols (df_values t0),
                         arows = head_rows n_target (arows (df_values t0))\<rparr>,
                       \<lparr>ncols = ncols (df_values t0),
                         arows = tail_rows n_target (arows (df_values t0))\<rparr>,
                       t0, t1)))"

subsection \<open>Correlation report (lines 117 to 124)\<close>

definition correlation_report :: "env \<Rightarrow> string \<Rightarrow> string list \<Rightarrow> dataframe \<Rightarrow> error + unit" where
  "correlation_report e do variables x0 =
     and_then (effect (env_heatmap e x0)) (\<lambda>_.
       case variables of
         [] \<Rightarrow> Inl IndexError
       | v # _ \<Rightarrow>
           if index_of v (columns x0) = None then Inl (KeyError v)
           else effect (env_savefig e (''plots/scatterMatrix_'' @ do @ ''.png'')))"

subsection \<open>Stacking and labels (lines 146 to 153)\<close>

definition labels :: "nat \<Rightarrow> nat \<Rightarrow> ndarray" where
  "labels n k =
     \<lparr>ncols = 1, arows = map (\<lambda>v. [v]) (take k (replicate n 0) @ replicate (n - k) 1)\<rparr>"

subsection \<open>Files written (lines 158 to 169) and plot (lines 171 to 173)\<close>

record result =
  ret_x :: ndarray
  ret_y :: ndarray
  files :: "(string \<times> ndarray) list"

definition plot_step ::
  "env \<Rightarrow> ndarray \<Rightarrow> ndarray \<Rightarrow> string list \<Rightarrow> (string \<times> string) option \<Rightarrow> bool \<Rightarrow> error + unit" where
  "plot_step e X0 X1 variables legend save =
     (if ncols X0 = 0 then Inl IndexError
      else case legend of
             None \<Rightarrow> Inl UnboundLocalError
           | Some lg \<Rightarrow> effect (env_draw_unweighted_distributions e X0 X1 variables lg save))"

subsection \<open>The whole function\<close>

definition loading ::
  "env \<Rightarrow> string option \<Rightarrow> bool \<Rightarrow> string \<Rightarrow> dataframe option \<Rightarrow> dataframe option
     \<Rightarrow> bool \<Rightarrow> bool \<Rightarrow> bool \<Rightarrow> bool \<Rightarrow> error + result" where
  "loading e folder plot do x0 x1 randomize save correlation preprocessing =
     (case folder of
        None \<Rightarrow> Inl TypeError
      | Some f \<Rightarrow>
     and_then (effect (env_create_missing_folders e [f @ do])) (\<lambda>_.
     and_then (load_samples e do x0 x1) (\<lambda>l.
     and_then (split_x0 e (l_rng l) randomize (l_x0 l) (l_x1 l)) (\<lambda>(X0, X0_test, x0, x1).
     and_then (if correlation then correlation_report e do (l_variables l) x0 else Inr ()) (\<lambda>_.
     and_then (if preprocessing then preprocess (l_variables l) x0 x1 else Inr (x0, x1)) (\<lambda>(x0, x1).
       let X1 = df_values x1
       in
     and_then (vstack X0 X1) (\<lambda>x.
       let y = labels (length (arows x)) (length (arows X0))
       in
     and_then (train_test_split e x y (2 / 5)) (\<lambda>(X_train, X_test, y_train, y_test).
     and_then (train_test_split e X_train y_train (1 / 2)) (\<lambda>(X_train, X_val, y_train, y_val).
       let written =
            (case folder of
               None \<Rightarrow> []
             | Some f \<Rightarrow>
                 [(f @ do @ ''/x0_test.npy'', X0_test),
                  (f @ do @ ''/x0_train.npy'', X0),
                  (f @ do @ ''/x1_train.npy'', X1),
                  (f @ do @ ''/X_train.npy'', X_train),
                  (f @ do @ ''/x_train.npy'', x),
                  (f @ do @ ''/y_train.npy'', y),
                  (f @ do @ ''/X_test.npy'', X_test),
                  (f @ do @ ''/X_val.npy'', X_val),
                  (f @ do @ ''/Y_train.npy'', y_train),
                  (f @ do @ ''/Y_test.npy'', y_test),
                  (f @ do @ ''/Y_val.npy'', y_val)])
       in
     and_then (if plot then plot_step e X0 X1 (l_variables l) (l_legend l) save else Inr ()) (\<lambda>_.
       Inr \<lparr>ret_x = x, ret_y = y, files = written\<rparr>))))))))))"

section \<open>The preprocessing contract as the specification words it\<close>

text \<open>
  Section 4.3 of the specification asks for bounds computed, for each table, from the
  column of that same table. \<open>preprocess_spec\<close> follows these words; it is compared with
  \<open>preprocess\<close>, which follows lines 131 to 142.
\<close>

definition filter_column_spec :: "string \<Rightarrow> dataframe \<Rightarrow> error + dataframe" where
  "filter_column_spec column x =
     and_then (colindex x column) (\<lambda>i.
       (let c = column_values x i;
            upper_lim = nan_add (mean c) (nan_mul (std c) factor);
            lower_lim = nan_sub (mean c) (nan_mul (std c) factor)
        in Inr (mask_rows x i upper_lim lower_lim)))"

fun filter_columns_spec :: "string list \<Rightarrow> dataframe \<Rightarrow> error + dataframe" where
  "filter_columns_spec [] x = Inr x"
| "filter_columns_spec (column # cs) x =
     and_then (filter_column_spec column x) (filter_columns_spec cs)"

definition preprocess_spec ::
  "string list \<Rightarrow> dataframe \<Rightarrow> dataframe \<Rightarrow> error + (dataframe \<times> dataframe)" where
  "preprocess_spec variables x0 x1 =
     and_then (filter_columns_spec variables x0) (\<lambda>a.
     and_then (filter_columns_spec variables x1) (\<lambda>b.
       Inr (round_df a, round_df b)))"

section \<open>Observations of a call and sample inputs\<close>

definition returned_x :: "error + result \<Rightarrow> error + row list" where
  "returned_x res = map_sum id (\<lambda>r. arows (ret_x r)) res"

definition returned_y :: "error + result \<Rightarrow> error + row list" where
  "returned_y res = map_sum id (\<lambda>r. arows (ret_y r)) res"

definition returned_file :: "nat \<Rightarrow> error + result \<Rightarrow> error + (string \<times> row list)" where
  "returned_file i res = map_sum id (\<lambda>r. (fst (files r ! i), arows (snd (files r ! i)))) res"

definition row_count :: "error + row list \<Rightarrow> error + nat" where
  "row_count res = map_sum id length res"

definition resampled_rows :: "error + (dataframe \<times> dataframe \<times> nat) \<Rightarrow> error + (nat \<times> nat)" where
  "resampled_rows res = map_sum id (\<lambda>(a, b, _). (df_len a, df_len b)) res"

definition returned_file_rows :: "nat \<Rightarrow> error + result \<Rightarrow> error + nat" where
  "returned_file_rows i res = map_sum id (\<lambda>r. length (arows (snd (files r ! i)))) res"

text \<open>
  A quiet environment: every collaborator succeeds, no ROOT file exists, the generator draws
  index 0 and the sample 0, and the seeded permutation is the identity.
\<close>

definition env_quiet :: env where
  "env_quiet =
     \<lparr>env_create_missing_folders = (\<lambda>_. None),
      env_load = (\<lambda>_ _. Inl (EnvError ''no such file'')),
      env_random_sample = (\<lambda>_. 0),
      env_randint = (\<lambda>_ _. 0),
      env_permutation42 = (\<lambda>n. [0..<n]),
      env_heatmap = (\<lambda>_. None),
      env_savefig = (\<lambda>_. None),
      env_draw_unweighted_distributions = (\<lambda>_ _ _ _ _. None)\<rparr>"

text \<open>
  An environment whose ROOT files hold two rows with the value 0.9 in every requested
  column, and whose uniform samples alternate between 0 and 3/4.
\<close>

definition env_files :: env where
  "env_files =
     env_quiet
       \<lparr>env_load :=
          (\<lambda>_ vs. Inr \<lparr>columns = vs, rows = [map (\<lambda>_. 9 / 10) vs, map (\<lambda>_. 9 / 10) vs]\<rparr>),
        env_random_sample := (\<lambda>k. if even k then 0 else 3 / 4)\<rparr>"

text \<open>A frame over the six default variables whose rows repeat one value in every column.\<close>

definition frame_of :: "string list \<Rightarrow> real list \<Rightarrow> dataframe" where
  "frame_of cs vs = \<lparr>columns = cs, rows = map (\<lambda>v. map (\<lambda>_. v) cs) vs\<rparr>"

definition sample_x0 :: dataframe where
  "sample_x0 = frame_of variables_default [100125 / 1000, 104125 / 1000, 108125 / 1000]"

definition sample_x1 :: dataframe where
  "sample_x1 = frame_of variables_default [1 / 1000, 4001 / 1000, 8001 / 1000]"

definition short_x0 :: dataframe where
  "short_x0 = frame_of variables_default [1]"



definition renamed_x1 :: dataframe where
  "renamed_x1 =
     frame_of [''n_jets'', ''jet_pt'', ''jet_eta'', ''met'', ''v_pt'', ''v_eta'']
       [1 / 1000, 4001 / 1000, 8001 / 1000]"

definition big_x0 :: dataframe where
  "big_x0 = frame_of variables_default (replicate 1000 1)"

definition big_x1 :: dataframe where
  "big_x1 = frame_of variables_default (replicate 400 1)"

section \<open>Evaluation lemmas\<close>

lemma sqrt_16: "sqrt 16 = 4"
  using real_sqrt_abs [of 4] by simp

lemma and_then_Inr_iff: "and_then m f = Inr r \<longleftrightarrow> (\<exists>a. m = Inr a \<and> f a = Inr r)"
  by (cases m) (simp_all add: and_then_def)

lemmas stat_defs =
  colindex_def column_values_def and_then_def mean_def std_def nan_add_def nan_mul_def
  nan_sub_def lt_lim_def gt_lim_def factor_def mask_rows_def Let_def

lemma filter_columns_sample:
  "filter_columns variables_default sample_x0 sample_x1 = Inr (sample_x0\<lparr>rows := []\<rparr>, sample_x1)"
  by (simp add: frame_of_def variables_default_def sample_x0_def sample_x1_def
      filter_column_def stat_defs power2_eq_square sqrt_16)

lemma filter_columns_spec_sample_x0:
  "filter_columns_spec variables_default sample_x0 = Inr sample_x0"
  by (simp add: frame_of_def variables_default_def sample_x0_def
      filter_column_spec_def stat_defs power2_eq_square sqrt_16)

lemma filter_columns_spec_sample_x1:
  "filter_columns_spec variables_default sample_x1 = Inr sample_x1"
  by (simp add: frame_of_def variables_default_def sample_x1_def
      filter_column_spec_def stat_defs power2_eq_square sqrt_16)

section \<open>Stages of a call that returns\<close>

subsection \<open>Row selection and the two splits\<close>

lemma take_rows_Inr_iff:
  "take_rows rs idx = Inr out \<longleftrightarrow> (\<forall>i \<in> set idx. i < length rs) \<and> out = map (\<lambda>i. rs ! i) idx"
proof -
  have "(\<exists>i \<in> set idx. length rs \<le> i) \<longleftrightarrow> \<not> (\<forall>i \<in> set idx. i < length rs)"
    by (metis not_le)
  then show ?thesis
    unfolding take_rows_def list_ex_iff by auto
qed

lemma train_test_split_lengths:
  assumes "train_test_split e x y ts = Inr (A, B, C, D)"
    and "length (env_permutation42 e (length (arows x))) = length (arows x)"
  shows "length (arows B) = nat \<lceil>ts * real (length (arows x))\<rceil>
       \<and> length (arows A) = length (arows x) - nat \<lceil>ts * real (length (arows x))\<rceil>
       \<and> length (arows D) = length (arows B) \<and> length (arows C) = length (arows A)
       \<and> 0 < length (arows A)
       \<and> ncols A = ncols x \<and> ncols B = ncols x \<and> ncols C = ncols y \<and> ncols D = ncols y"
  using assms
  unfolding train_test_split_def Let_def
  by (auto simp: and_then_Inr_iff take_rows_Inr_iff split: if_splits)

lemma train_test_split_total:
  assumes len: "length (env_permutation42 e n) = n"
    and bound: "\<forall>i \<in> set (env_permutation42 e n). i < n"
    and n: "length (arows x) = n" "length (arows y) = n"
    and pos: "nat \<lceil>ts * real n\<rceil> < n"
  shows "\<exists>A B C D. train_test_split e x y ts = Inr (A, B, C, D)"
proof -
  have "\<forall>i \<in> set (take k (env_permutation42 e n)). i < n" for k
    using bound by (meson in_set_takeD)
  moreover have "\<forall>i \<in> set (take k (drop j (env_permutation42 e n))). i < n" for k j
    using bound by (meson in_set_takeD in_set_dropD)
  ultimately show ?thesis
    using pos n
    by (simp add: train_test_split_def Let_def and_then_Inr_iff take_rows_Inr_iff)
qed

subsection \<open>What a returning call went through\<close>

lemma loading_returns:
  assumes "loading e folder plot do x0 x1 randomize save correlation preprocessing = Inr r"
  shows "\<exists>f l X0 X0_test t0 t1 u0 u1 x X_train X_test y_train y_test X_train2 X_val y_train2 y_val.
           folder = Some f
         \<and> load_samples e do x0 x1 = Inr l
         \<and> split_x0 e (l_rng l) randomize (l_x0 l) (l_x1 l) = Inr (X0, X0_test, t0, t1)
         \<and> (if preprocessing then preprocess (l_variables l) t0 t1 else Inr (t0, t1)) = Inr (u0, u1)
         \<and> vstack X0 (df_values u1) = Inr x
         \<and> train_test_split e x (labels (length (arows x)) (length (arows X0))) (2 / 5)
               = Inr (X_train, X_test, y_train, y_test)
         \<and> train_test_split e X_train y_train (1 / 2) = Inr (X_train2, X_val, y_train2, y_val)
         \<and> ret_x r = x
         \<and> ret_y r = labels (length (arows x)) (length (arows X0))
         \<and> files r =
                 [(f @ do @ ''/x0_test.npy'', X0_test),
                  (f @ do @ ''/x0_train.npy'', X0),
                  (f @ do @ ''/x1_train.npy'', df_values u1),
                  (f @ do @ ''/X_train.npy'', X_train2),
                  (f @ do @ ''/x_train.npy'', x),
                  (f @ do @ ''/y_train.npy'', labels (length (arows x)) (length (arows X0))),
                  (f @ do @ ''/X_test.npy'', X_test),
                  (f @ do @ ''/X_val.npy'', X_val),
                  (f @ do @ ''/Y_train.npy'', y_train2),
                  (f @ do @ ''/Y_test.npy'', y_test),
                  (f @ do @ ''/Y_val.npy'', y_val)]"
  using assms
  unfolding loading_def
  by (cases preprocessing) (auto simp: and_then_Inr_iff Let_def split: option.splits prod.splits)

lemma vstack_Inr:
  "vstack a b = Inr x \<Longrightarrow> arows x = arows a @ arows b \<and> ncols a = ncols b \<and> ncols x = ncols a"
  by (auto simp: vstack_def split: if_splits)

lemma labels_rows:
  "k \<le> n \<Longrightarrow> arows (labels n k) = replicate k [0] @ replicate (n - k) [1]"
  by (simp add: labels_def map_replicate_const min_def)

lemma labels_length: "length (arows (labels n k)) = min k n + (n - k)"
  by (simp add: labels_def)

lemma split_x0_Inr:
  assumes "split_x0 e pos randomize x0 x1 = Inr (X0, X0_test, t0, t1)"
  shows "x0 = Some t0 \<and> x1 = Some t1 \<and> ncols X0 = length (columns t0)
       \<and> ncols X0_test = length (columns t0)
       \<and> set (arows X0) \<subseteq> set (rows t0) \<and> set (arows X0_test) \<subseteq> set (rows t0)
       \<and> (randomize \<longrightarrow> length (arows X0) = df_len t1 \<and> length (arows X0_test) = df_len t1)
       \<and> (\<not> randomize \<longrightarrow> arows X0 = take (df_len t1) (rows t0)
                         \<and> arows X0_test = tail_rows (df_len t1) (rows t0))"
proof (cases randomize)
  case False
  with assms show ?thesis
    by (auto simp: split_x0_def Let_def df_values_def df_len_def head_rows_def tail_rows_def
        split: option.splits if_splits dest: in_set_takeD in_set_dropD)
next
  case True
  with assms obtain idx randomized where
    eqs: "x0 = Some t0" "x1 = Some t1"
    "choice e pos (length (rows t0)) (2 * length (rows t1)) = Inr idx"
    "take_rows (rows t0) idx = Inr randomized"
    "X0 = \<lparr>ncols = length (columns t0), arows = head_rows (length (rows t1)) randomized\<rparr>"
    "X0_test = \<lparr>ncols = length (columns t0), arows = tail_rows (length (rows t1)) randomized\<rparr>"
    by (auto simp: split_x0_def Let_def df_values_def and_then_Inr_iff split: option.splits)
  have len: "length idx = 2 * length (rows t1)"
    using eqs(3) by (auto simp: choice_def split: if_splits)
  have r: "randomized = map (\<lambda>i. rows t0 ! i) idx" "\<forall>i \<in> set idx. i < length (rows t0)"
    using eqs(4) by (simp_all add: take_rows_Inr_iff)
  have sub: "set randomized \<subseteq> set (rows t0)"
    using r by auto
  have "set (head_rows n randomized) \<subseteq> set (rows t0)" for n
    using sub by (auto simp: head_rows_def dest: in_set_takeD)
  moreover have "set (tail_rows n randomized) \<subseteq> set (rows t0)" for n
    using sub by (auto simp: tail_rows_def dest: in_set_dropD)
  moreover have "length (head_rows (length (rows t1)) randomized) = length (rows t1)"
    using len r(1) by (simp add: head_rows_def)
  moreover have "length (tail_rows (length (rows t1)) randomized) = length (rows t1)"
    using len r(1) by (simp add: tail_rows_def)
  ultimately show ?thesis
    using True eqs by (simp add: df_len_def)
qed

subsection \<open>Sufficient conditions for a call to return\<close>

lemma second_stage_size:
  assumes "4 \<le> n"
  shows "nat \<lceil>2 / 5 * real n\<rceil> < n"
    and "nat \<lceil>1 / 2 * real (n - nat \<lceil>2 / 5 * real n\<rceil>)\<rceil> < n - nat \<lceil>2 / 5 * real n\<rceil>"
proof -
  have "2 / 5 * real n \<le> real_of_int (int n - 2)"
    using assms by simp
  then have a: "\<lceil>2 / 5 * real n\<rceil> \<le> int n - 2"
    by (simp only: ceiling_le_iff)
  then show "nat \<lceil>2 / 5 * real n\<rceil> < n" by linarith
  define m where "m = n - nat \<lceil>2 / 5 * real n\<rceil>"
  have m2: "2 \<le> m" using a unfolding m_def by linarith
  have "1 / 2 * real m \<le> real_of_int (int m - 1)"
    using m2 by simp
  then have "\<lceil>1 / 2 * real m\<rceil> \<le> int m - 1"
    by (simp only: ceiling_le_iff)
  then have "nat \<lceil>1 / 2 * real m\<rceil> < m"
    using m2 by linarith
  then show "nat \<lceil>1 / 2 * real (n - nat \<lceil>2 / 5 * real n\<rceil>)\<rceil> < n - nat \<lceil>2 / 5 * real n\<rceil>"
    unfolding m_def .
qed

lemma loading_assemble:
  assumes mk: "env_create_missing_folders e [f @ do] = None"
    and ld: "load_samples e do x0 x1 = Inr l"
    and sp: "split_x0 e (l_rng l) randomize (l_x0 l) (l_x1 l) = Inr (Xa, Xt, t0, t1)"
    and co: "correlation \<longrightarrow> correlation_report e do (l_variables l) t0 = Inr ()"
    and pp: "(if preprocessing then preprocess (l_variables l) t0 t1 else Inr (t0, t1)) = Inr (ua, ub)"
    and nc: "ncols Xa = length (columns ub)"
    and n4: "4 \<le> length (arows Xa) + df_len ub"
    and perm: "\<And>n. length (env_permutation42 e n) = n \<and> (\<forall>i \<in> set (env_permutation42 e n). i < n)"
    and pl: "plot \<longrightarrow> plot_step e Xa (df_values ub) (l_variables l) (l_legend l) save = Inr ()"
  shows "\<exists>r. loading e (Some f) plot do x0 x1 randomize save correlation preprocessing = Inr r"
proof -
  define x where "x = \<lparr>ncols = ncols Xa, arows = arows Xa @ arows (df_values ub)\<rparr>"
  define n where "n = length (arows x)"
  define y where "y = labels n (length (arows Xa))"
  have vs: "vstack Xa (df_values ub) = Inr x"
    using nc by (simp add: vstack_def x_def df_values_def)
  have n: "4 \<le> n" "length (arows y) = n" "length (arows x) = n"
    using n4 by (simp_all add: n_def x_def df_values_def df_len_def y_def labels_length)
  have "\<exists>A B C D. train_test_split e x y (2 / 5) = Inr (A, B, C, D)"
    by (rule train_test_split_total [where n = n])
      (use perm [of n] n second_stage_size(1) [OF n(1)] in simp_all)
  then obtain A B C D where s1: "train_test_split e x y (2 / 5) = Inr (A, B, C, D)"
    by blast
  have l1: "length (arows A) = n - nat \<lceil>2 / 5 * real n\<rceil>" "length (arows C) = length (arows A)"
    using train_test_split_lengths [OF s1] perm [of n] n(3) by simp_all
  have "\<exists>A' V C' W. train_test_split e A C (1 / 2) = Inr (A', V, C', W)"
    by (rule train_test_split_total [where n = "length (arows A)"])
      (use perm [of "length (arows A)"] l1 second_stage_size(2) [OF n(1)] in simp_all)
  then obtain A' V C' W where s2: "train_test_split e A C (1 / 2) = Inr (A', V, C', W)"
    by blast
  have co': "(if correlation then correlation_report e do (l_variables l) t0 else Inr ()) = Inr ()"
    using co by simp
  have pl': "(if plot then plot_step e Xa (df_values ub) (l_variables l) (l_legend l) save else Inr ()) = Inr ()"
    using pl by simp
  have s1': "train_test_split e x (labels (length (arows x)) (length (arows Xa))) (2 / 5) = Inr (A, B, C, D)"
    using s1 by (simp add: y_def n_def)
  show ?thesis
    unfolding loading_def
    by (simp only: option.case mk effect_def and_then_def sum.case ld sp prod.case co' pp vs
        Let_def s1' s2 pl') blast
qed

subsection \<open>The sample call\<close>

lemma env_quiet_permutation:
  "length (env_permutation42 env_quiet n) = n \<and> (\<forall>i \<in> set (env_permutation42 env_quiet n). i < n)"
  by (simp add: env_quiet_def)

lemma preprocess_sample:
  "preprocess variables_default sample_x0 sample_x1
     = Inr (round_df (sample_x0\<lparr>rows := []\<rparr>), round_df sample_x1)"
  by (simp add: preprocess_def filter_columns_sample)

lemma sample_call_returns:
  "\<exists>r. loading env_quiet (Some ''out/'') False ''sherpaVsMG5'' (Some sample_x0) (Some sample_x1)
          False False True True = Inr r"
proof (rule loading_assemble)
  show "env_create_missing_folders env_quiet [''out/'' @ ''sherpaVsMG5''] = None"
    by (simp add: env_quiet_def)
  show "load_samples env_quiet ''sherpaVsMG5'' (Some sample_x0) (Some sample_x1)
          = Inr \<lparr>l_variables = variables_default, l_legend = Some (''Sherpa'', ''MG5''),
                 l_x0 = Some sample_x0, l_x1 = Some sample_x1, l_rng = 0\<rparr>"
    by (simp add: load_samples_def)
  show "split_x0 env_quiet
          (l_rng \<lparr>l_variables = variables_default, l_legend = Some (''Sherpa'', ''MG5''),
                 l_x0 = Some sample_x0, l_x1 = Some sample_x1, l_rng = 0\<rparr>) False
          (l_x0 \<lparr>l_variables = variables_default, l_legend = Some (''Sherpa'', ''MG5''),
                 l_x0 = Some sample_x0, l_x1 = Some sample_x1, l_rng = 0\<rparr>)
          (l_x1 \<lparr>l_variables = variables_default, l_legend = Some (''Sherpa'', ''MG5''),
                 l_x0 = Some sample_x0, l_x1 = Some sample_x1, l_rng = 0\<rparr>)
        = Inr (\<lparr>ncols = 6, arows = rows sample_x0\<rparr>, \<lparr>ncols = 6, arows = rows sample_x0\<rparr>,
               sample_x0, sample_x1)"
    by (simp add: split_x0_def df_values_def head_rows_def tail_rows_def sample_x0_def
        sample_x1_def frame_of_def variables_default_def)
  show "True \<longrightarrow> correlation_report env_quiet ''sherpaVsMG5''
          (l_variables \<lparr>l_variables = variables_default, l_legend = Some (''Sherpa'', ''MG5''),
                 l_x0 = Some sample_x0, l_x1 = Some sample_x1, l_rng = 0\<rparr>) sample_x0 = Inr ()"
    by (simp add: correlation_report_def env_quiet_def effect_def and_then_def
        variables_default_def sample_x0_def frame_of_def)
  show "(if True then preprocess
          (l_variables \<lparr>l_variables = variables_default, l_legend = Some (''Sherpa'', ''MG5''),
                 l_x0 = Some sample_x0, l_x1 = Some sample_x1, l_rng = 0\<rparr>) sample_x0 sample_x1
         else Inr (sample_x0, sample_x1))
        = Inr (round_df (sample_x0\<lparr>rows := []\<rparr>), round_df sample_x1)"
    by (simp add: preprocess_sample)
  show "ncols \<lparr>ncols = 6, arows = rows sample_x0\<rparr> = length (columns (round_df sample_x1))"
    by (simp add: round_df_def sample_x1_def frame_of_def variables_default_def)
  show "4 \<le> length (arows \<lparr>ncols = 6, arows = rows sample_x0\<rparr>) + df_len (round_df sample_x1)"
    by (simp add: round_df_def df_len_def sample_x0_def sample_x1_def frame_of_def)
  show "\<And>n. length (env_permutation42 env_quiet n) = n
           \<and> (\<forall>i \<in> set (env_permutation42 env_quiet n). i < n)"
    by (rule env_quiet_permutation)
  show "False \<longrightarrow> plot_step env_quiet \<lparr>ncols = 6, arows = rows sample_x0\<rparr>
          (df_values (round_df sample_x1))
          (l_variables \<lparr>l_variables = variables_default, l_legend = Some (''Sherpa'', ''MG5''),
                 l_x0 = Some sample_x0, l_x1 = Some sample_x1, l_rng = 0\<rparr>)
          (l_legend \<lparr>l_variables = variables_default, l_legend = Some (''Sherpa'', ''MG5''),
                 l_x0 = Some sample_x0, l_x1 = Some sample_x1, l_rng = 0\<rparr>) False = Inr ()"
    by simp
qed

subsection \<open>Tables, slices and returned arrays\<close>

lemma loading_returns_tables:
  assumes ret: "loading e folder plot do x0 x1 randomize save correlation preprocessing = Inr r"
    and ld: "load_samples e do x0 x1 = Inr l"
  shows "\<exists>f a b X0 X0_test u0 u1.
           folder = Some f \<and> l_x0 l = Some a \<and> l_x1 l = Some b
         \<and> split_x0 e (l_rng l) randomize (Some a) (Some b) = Inr (X0, X0_test, a, b)
         \<and> (if preprocessing then preprocess (l_variables l) a b else Inr (a, b)) = Inr (u0, u1)
         \<and> ncols X0 = length (columns u1)
         \<and> arows (ret_x r) = arows X0 @ rows u1
         \<and> arows (ret_y r) = replicate (length (arows X0)) [0] @ replicate (df_len u1) [1]
         \<and> files r ! 0 = (f @ do @ ''/x0_test.npy'', X0_test)
         \<and> files r ! 1 = (f @ do @ ''/x0_train.npy'', X0)
         \<and> files r ! 2 = (f @ do @ ''/x1_train.npy'', df_values u1)"
proof -
  from loading_returns [OF ret] ld obtain f X0 X0_test t0 t1 u0 u1 x
    where st: "folder = Some f"
      "split_x0 e (l_rng l) randomize (l_x0 l) (l_x1 l) = Inr (X0, X0_test, t0, t1)"
      "(if preprocessing then preprocess (l_variables l) t0 t1 else Inr (t0, t1)) = Inr (u0, u1)"
      "vstack X0 (df_values u1) = Inr x" "ret_x r = x"
      "ret_y r = labels (length (arows x)) (length (arows X0))"
      "files r ! 0 = (f @ do @ ''/x0_test.npy'', X0_test)"
      "files r ! 1 = (f @ do @ ''/x0_train.npy'', X0)"
      "files r ! 2 = (f @ do @ ''/x1_train.npy'', df_values u1)"
    by auto
  have ab: "l_x0 l = Some t0" "l_x1 l = Some t1"
    using split_x0_Inr [OF st(2)] by simp_all
  have x: "arows x = arows X0 @ rows u1" "ncols X0 = length (columns u1)"
    using vstack_Inr [OF st(4)] by (simp_all add: df_values_def)
  have y: "arows (ret_y r) = replicate (length (arows X0)) [0] @ replicate (df_len u1) [1]"
    using labels_rows [of "length (arows X0)" "length (arows x)"] x st(6)
    by (simp add: df_len_def)
  show ?thesis
    using st ab x y by simp
qed

subsection \<open>The column filters select subsequences\<close>

lemma filter_column_Inr:
  assumes "filter_column c x0 x1 = Inr (a, b)"
  shows "columns a = columns x0 \<and> columns b = columns x1
       \<and> subseq (rows a) (rows x0) \<and> subseq (rows b) (rows x1)"
  using assms
  by (auto simp: filter_column_def and_then_Inr_iff Let_def mask_rows_def)

lemma filter_columns_Inr:
  "filter_columns cs x0 x1 = Inr (a, b) \<Longrightarrow>
     columns a = columns x0 \<and> columns b = columns x1
     \<and> subseq (rows a) (rows x0) \<and> subseq (rows b) (rows x1)"
proof (induction cs arbitrary: x0 x1)
  case Nil
  then show ?case by simp
next
  case (Cons c cs)
  from Cons.prems obtain m0 m1 where
    step: "filter_column c x0 x1 = Inr (m0, m1)" and rest: "filter_columns cs m0 m1 = Inr (a, b)"
    by (auto split: sum.splits)
  from filter_column_Inr [OF step] Cons.IH [OF rest] show ?case
    by (metis subseq_order.order_trans)
qed

lemma preprocess_Inr:
  assumes "preprocess variables x0 x1 = Inr (u0, u1)"
  shows "\<exists>a b. filter_columns variables x0 x1 = Inr (a, b)
             \<and> u0 = round_df a \<and> u1 = round_df b"
  using assms by (auto simp: preprocess_def split: sum.splits)

lemma round2_hundredths: "\<exists>k::int. round2 v = of_int k / 100"
  by (auto simp: round2_def)

lemma subseq_length_le: "subseq xs ys \<Longrightarrow> length xs \<le> length ys"
  by (meson not_subseq_length not_le)

lemma preprocess_sample_value:
  "preprocess variables_default sample_x0 sample_x1
     = Inr (frame_of variables_default [], frame_of variables_default [0, 4, 8])"
  by (subst preprocess_sample)
    (simp add: round_df_def sample_x0_def sample_x1_def frame_of_def round2_def rint_def
      Let_def variables_default_def)

lemma load_samples_sample:
  "load_samples env_quiet ''sherpaVsMG5'' (Some sample_x0) (Some sample_x1)
     = Inr \<lparr>l_variables = variables_default, l_legend = Some (''Sherpa'', ''MG5''),
            l_x0 = Some sample_x0, l_x1 = Some sample_x1, l_rng = 0\<rparr>"
  by (simp add: load_samples_def)

lemma sample_call_rows:
  assumes r: "loading env_quiet (Some ''out/'') False ''sherpaVsMG5'' (Some sample_x0)
      (Some sample_x1) False False True True = Inr r"
  shows "length (arows (ret_x r)) = 6"
proof -
  have len: "length (rows sample_x0) = 3" "df_len sample_x1 = 3"
    "df_len (round_df sample_x1) = 3" "length (rows (round_df sample_x1)) = 3"
    by (simp_all add: df_len_def sample_x0_def sample_x1_def frame_of_def round_df_def)
  from loading_returns_tables [OF r load_samples_sample] obtain X0 X0_test u0 u1 where
    st: "split_x0 env_quiet 0 False (Some sample_x0) (Some sample_x1)
           = Inr (X0, X0_test, sample_x0, sample_x1)"
      "preprocess variables_default sample_x0 sample_x1 = Inr (u0, u1)"
      "arows (ret_x r) = arows X0 @ rows u1"
    by auto
  have "arows X0 = take 3 (rows sample_x0)"
    using split_x0_Inr [OF st(1)] len by simp
  moreover have "u1 = round_df sample_x1"
    using st(2) by (simp add: preprocess_sample)
  ultimately show ?thesis
    using st(3) len by simp
qed

subsection \<open>Tables with constant columns\<close>

lemma big_rows:
  "rows big_x0 = replicate 1000 [1, 1, 1, 1, 1, 1]"
  "rows big_x1 = replicate 400 [1, 1, 1, 1, 1, 1]"
  "columns big_x0 = variables_default" "columns big_x1 = variables_default"
  by (simp_all add: big_x0_def big_x1_def frame_of_def variables_default_def)

lemma index_of_less: "index_of c cs = Some i \<Longrightarrow> i < length cs"
  by (induction cs arbitrary: i) (auto split: if_splits)

lemma index_of_mem: "c \<in> set cs \<Longrightarrow> \<exists>i. index_of c cs = Some i"
  by (induction cs) auto

lemma columns_frame_of: "columns (frame_of cs vs) = cs"
  by (simp add: frame_of_def)

lemma constant_column_stats:
  assumes "2 \<le> n"
  shows "mean (replicate n v) = Some v" "std (replicate n v) = Some 0"
  using assms by (simp_all add: mean_def std_def sum_list_replicate)

lemma filter_column_constant:
  assumes i: "index_of c cs = Some i" and n: "2 \<le> n"
  shows "filter_column c (frame_of cs ws) (frame_of cs (replicate n v))
           = Inr (frame_of cs [], frame_of cs [])"
proof -
  have col: "column_values (frame_of cs (replicate n v)) i = replicate n v"
    using index_of_less [OF i] by (simp add: column_values_def frame_of_def)
  have none: "filter (\<lambda>r. lt_lim (r ! i) (Some v) \<and> gt_lim (r ! i) (Some v)) rs = []" for rs
    by (induction rs) (auto simp: lt_lim_def gt_lim_def)
  show ?thesis
    using i
    by (simp add: filter_column_def colindex_def and_then_def Let_def col columns_frame_of
        constant_column_stats [OF n] nan_add_def nan_sub_def nan_mul_def mask_rows_def none)
      (simp add: frame_of_def)
qed

lemma filter_column_empty:
  assumes i: "index_of c cs = Some i"
  shows "filter_column c (frame_of cs []) (frame_of cs []) = Inr (frame_of cs [], frame_of cs [])"
  using i
  by (simp add: filter_column_def colindex_def and_then_def Let_def mask_rows_def frame_of_def)

lemma filter_columns_empty:
  "set vs \<subseteq> set cs \<Longrightarrow>
     filter_columns vs (frame_of cs []) (frame_of cs []) = Inr (frame_of cs [], frame_of cs [])"
proof (induction vs)
  case Nil
  then show ?case by simp
next
  case (Cons c vs)
  then obtain i where "index_of c cs = Some i"
    using index_of_mem [of c cs] by auto
  then show ?case
    using Cons by (simp add: filter_column_empty)
qed

lemma filter_columns_constant:
  assumes "vs \<noteq> []" "set vs \<subseteq> set cs" "2 \<le> n"
  shows "filter_columns vs (frame_of cs ws) (frame_of cs (replicate n v))
           = Inr (frame_of cs [], frame_of cs [])"
proof (cases vs)
  case Nil
  with assms show ?thesis by simp
next
  case (Cons c vs')
  then obtain i where "index_of c cs = Some i"
    using index_of_mem [of c cs] assms by auto
  then show ?thesis
    using Cons assms filter_columns_empty [of vs' cs]
    by (simp add: filter_column_constant)
qed

lemma preprocess_big:
  "preprocess variables_default big_x0 big_x1
     = Inr (frame_of variables_default [], frame_of variables_default [])"
proof -
  have "filter_columns variables_default big_x0 big_x1
     = Inr (frame_of variables_default [], frame_of variables_default [])"
    unfolding big_x0_def big_x1_def
    by (rule filter_columns_constant) (simp_all add: variables_default_def)
  then show ?thesis
    by (simp add: preprocess_def round_df_def frame_of_def)
qed


lemma load_samples_big:
  "load_samples env_quiet ''sherpaVsMG5'' (Some big_x0) (Some big_x1)
     = Inr \<lparr>l_variables = variables_default, l_legend = Some (''Sherpa'', ''MG5''),
            l_x0 = Some big_x0, l_x1 = Some big_x1, l_rng = 0\<rparr>"
  by (simp add: load_samples_def)

lemma split_x0_big:
  "split_x0 env_quiet 0 False (Some big_x0) (Some big_x1)
     = Inr (\<lparr>ncols = 6, arows = replicate 400 [1, 1, 1, 1, 1, 1]\<rparr>,
            \<lparr>ncols = 6, arows = replicate 400 [1, 1, 1, 1, 1, 1]\<rparr>, big_x0, big_x1)"
  by (simp add: split_x0_def df_values_def head_rows_def tail_rows_def big_rows
      variables_default_def)

lemma correlation_report_big:
  "correlation_report env_quiet ''sherpaVsMG5'' variables_default big_x0 = Inr ()"
  by (simp add: correlation_report_def env_quiet_def effect_def and_then_def big_rows
      variables_default_def)

lemma big_call_returns:
  "\<exists>r. loading env_quiet (Some ''out/'') False ''sherpaVsMG5'' (Some big_x0) (Some big_x1)
          False False True preprocessing = Inr r"
proof -
  define l where "l = \<lparr>l_variables = variables_default, l_legend = Some (''Sherpa'', ''MG5''),
            l_x0 = Some big_x0, l_x1 = Some big_x1, l_rng = 0\<rparr>"
  define Xa where "Xa = \<lparr>ncols = 6, arows = replicate 400 [1, 1, 1, 1, 1, 1 :: real]\<rparr>"
  define ua where "ua = (if preprocessing then frame_of variables_default [] else big_x0)"
  define ub where "ub = (if preprocessing then frame_of variables_default [] else big_x1)"
  have sel: "l_rng l = 0" "l_x0 l = Some big_x0" "l_x1 l = Some big_x1"
    "l_variables l = variables_default"
    by (simp_all add: l_def)
  show ?thesis
  proof (rule loading_assemble [where l = l and Xa = Xa and Xt = Xa and ua = ua and ub = ub
          and ?t0.0 = big_x0 and ?t1.0 = big_x1])
    show "env_create_missing_folders env_quiet [''out/'' @ ''sherpaVsMG5''] = None"
      by (simp add: env_quiet_def)
    show "load_samples env_quiet ''sherpaVsMG5'' (Some big_x0) (Some big_x1) = Inr l"
      by (simp add: load_samples_big l_def)
    show "split_x0 env_quiet (l_rng l) False (l_x0 l) (l_x1 l) = Inr (Xa, Xa, big_x0, big_x1)"
      by (simp only: sel split_x0_big Xa_def)
    show "True \<longrightarrow> correlation_report env_quiet ''sherpaVsMG5'' (l_variables l) big_x0 = Inr ()"
      by (simp add: sel correlation_report_big)
    show "(if preprocessing then preprocess (l_variables l) big_x0 big_x1
           else Inr (big_x0, big_x1)) = Inr (ua, ub)"
      by (simp add: sel preprocess_big ua_def ub_def)
    show "ncols Xa = length (columns ub)"
      by (simp add: Xa_def ub_def columns_frame_of big_rows) (simp add: variables_default_def)
    show "4 \<le> length (arows Xa) + df_len ub"
      by (simp add: Xa_def)
    show "\<And>n. length (env_permutation42 env_quiet n) = n
             \<and> (\<forall>i \<in> set (env_permutation42 env_quiet n). i < n)"
      by (rule env_quiet_permutation)
    show "False \<longrightarrow> plot_step env_quiet Xa (df_values ub) (l_variables l) (l_legend l) False
            = Inr ()"
      by simp
  qed
qed

subsection \<open>Weighted sampling\<close>

lemma length_cumsum: "length (cumsum acc xs) = length xs"
  by (induction xs arbitrary: acc) simp_all

lemma last_Cons_cumsum: "last (acc # cumsum acc xs) = acc + sum_list xs"
proof (induction xs arbitrary: acc)
  case Nil
  then show ?case by simp
next
  case (Cons x xs)
  have "last (acc # cumsum acc (x # xs)) = last ((acc + x) # cumsum (acc + x) xs)"
    by simp
  also have "\<dots> = acc + x + sum_list xs"
    by (rule Cons.IH)
  finally show ?case
    by (simp add: add.assoc)
qed

lemma last_cumsum: "xs \<noteq> [] \<Longrightarrow> last (cumsum acc xs) = acc + sum_list xs"
proof (cases xs)
  case Nil
  moreover assume "xs \<noteq> []"
  ultimately show ?thesis by simp
next
  case (Cons x ys)
  have "last (cumsum acc (x # ys)) = last ((acc + x) # cumsum (acc + x) ys)"
    by simp
  also have "\<dots> = acc + x + sum_list ys"
    by (rule last_Cons_cumsum)
  finally show ?thesis
    using Cons by (simp add: add.assoc)
qed

lemma searchsorted_right_less:
  assumes "cdf \<noteq> []" "u < last cdf"
  shows "searchsorted_right cdf u < length cdf"
  unfolding searchsorted_right_def
  by (rule length_filter_less [of "last cdf"]) (use assms in auto)

lemma normalise_Some:
  "normalise w = Some p \<Longrightarrow> p = map (\<lambda>v. v / sum_list w) w"
  by (auto simp: normalise_def split: if_splits)

lemma choice_p_Inr:
  assumes "choice_p e pos pop_size n_draws p = Inr idx"
  shows "\<exists>ps. p = Some ps \<and> length ps = pop_size \<and> (\<forall>v \<in> set ps. 0 \<le> v) \<and> sum_list ps = 1
            \<and> 0 \<le> n_draws \<and> int (length idx) = n_draws
            \<and> (n_draws \<noteq> 0 \<longrightarrow> pop_size \<noteq> 0)
            \<and> idx = map (\<lambda>k. searchsorted_right
                                  (map (\<lambda>c. c / last (cumsum 0 ps)) (cumsum 0 ps))
                                  (env_random_sample e (pos + k))) [0..<nat n_draws]"
  using assms
  by (auto simp: choice_p_def Let_def list_ex_iff not_less split: if_splits option.splits)

lemma choice_p_in_bounds:
  assumes c: "choice_p e pos pop_size n_draws p = Inr idx"
    and u: "\<And>k. env_random_sample e k < 1"
  shows "\<forall>i \<in> set idx. i < pop_size"
proof
  fix i assume i: "i \<in> set idx"
  from choice_p_Inr [OF c] obtain ps where
    ps: "p = Some ps" "length ps = pop_size" "sum_list ps = 1" "n_draws \<noteq> 0 \<longrightarrow> pop_size \<noteq> 0"
      "int (length idx) = n_draws"
      "idx = map (\<lambda>k. searchsorted_right (map (\<lambda>c. c / last (cumsum 0 ps)) (cumsum 0 ps))
                        (env_random_sample e (pos + k))) [0..<nat n_draws]"
    by blast
  have ne: "ps \<noteq> []"
    using i ps(2,4,5) by auto
  define cdf where "cdf = map (\<lambda>c. c / last (cumsum 0 ps)) (cumsum 0 ps)"
  have cne: "cumsum 0 ps \<noteq> []"
    using ne length_cumsum [of 0 ps] by auto
  have "last cdf = last (cumsum 0 ps) / last (cumsum 0 ps)"
    unfolding cdf_def using cne by (simp add: last_map)
  then have last1: "last cdf = 1"
    using last_cumsum [OF ne, of 0] ps(3) by simp
  have len: "length cdf = pop_size" "cdf \<noteq> []"
    using ps(2) cne by (simp_all add: cdf_def length_cumsum)
  from i ps(6) obtain k where "i = searchsorted_right cdf (env_random_sample e (pos + k))"
    by (auto simp: cdf_def)
  then show "i < pop_size"
    using searchsorted_right_less [OF len(2), of "env_random_sample e (pos + k)"] u last1 len(1)
    by simp
qed

lemma draw_indices_Inr:
  assumes "draw_indices e pos x w = Inr idx"
  shows "normalise w = Some (map (\<lambda>v. v / sum_list w) w)
       \<and> sum_list (map (\<lambda>v. v / sum_list w) w) = 1
       \<and> (\<forall>v \<in> set (map (\<lambda>v. v / sum_list w) w). 0 \<le> v)
       \<and> length w = df_len x
       \<and> int (length idx) = int_trunc (sum_list w)"
proof -
  from choice_p_Inr [OF assms [unfolded draw_indices_def]] obtain ps where
    ps: "normalise w = Some ps" "length ps = df_len x" "\<forall>v \<in> set ps. 0 \<le> v" "sum_list ps = 1"
      "int (length idx) = resample_size w"
    by blast
  have "ps = map (\<lambda>v. v / sum_list w) w"
    using normalise_Some [OF ps(1)] .
  then show ?thesis
    using ps by (simp add: resample_size_def)
qed

lemma iloc_Inr:
  "iloc df idx = Inr out \<Longrightarrow>
     (\<forall>i \<in> set idx. i < df_len df) \<and> rows out = map (\<lambda>i. rows df ! i) idx
     \<and> columns out = columns df"
  by (auto simp: iloc_def and_then_Inr_iff take_rows_Inr_iff df_len_def)


lemma load_mur_Inr:
  assumes "load_mur e = Inr (a, b, pos)"
  shows "\<exists>x0 x1 wx0 wx1 w0 w1 i0 i1.
           env_load e mur1_file variables_default = Inr x0
         \<and> env_load e mur2_file variables_default = Inr x1
         \<and> env_load e mur1_file [''truthWeight''] = Inr wx0
         \<and> env_load e mur2_file [''truthWeight''] = Inr wx1
         \<and> truthWeight wx0 = Inr w0 \<and> truthWeight wx1 = Inr w1
         \<and> draw_indices e 0 x0 w0 = Inr i0
         \<and> draw_indices e (length i0) x1 w1 = Inr i1
         \<and> iloc x0 i0 = Inr a \<and> iloc x1 i1 = Inr b"
  using assms unfolding load_mur_def and_then_Inr_iff by blast

lemma load_mur_env_files:
  "load_mur env_files
     = Inr (\<lparr>columns = variables_default, rows = [map (\<lambda>_. 9 / 10) variables_default]\<rparr>,
            \<lparr>columns = variables_default, rows = [map (\<lambda>_. 9 / 10) variables_default]\<rparr>, 2)"
  by (simp add: load_mur_def env_files_def env_quiet_def and_then_def truthWeight_def
      column_values_def draw_indices_def choice_p_def normalise_def resample_size_def
      int_trunc_def df_len_def searchsorted_right_def iloc_def take_rows_def Let_def
      variables_default_def)

subsection \<open>Column counts\<close>









lemma load_samples_short:
  "load_samples env_quiet ''sherpaVsMG5'' (Some short_x0) (Some sample_x1)
     = Inr \<lparr>l_variables = variables_default, l_legend = Some (''Sherpa'', ''MG5''),
            l_x0 = Some short_x0, l_x1 = Some sample_x1, l_rng = 0\<rparr>"
  by (simp add: load_samples_def)

lemma split_x0_short:
  "split_x0 env_quiet 0 False (Some short_x0) (Some sample_x1)
     = Inr (\<lparr>ncols = 6, arows = rows short_x0\<rparr>, \<lparr>ncols = 6, arows = rows short_x0\<rparr>,
            short_x0, sample_x1)"
  by (simp add: split_x0_def df_values_def head_rows_def tail_rows_def short_x0_def
      sample_x1_def frame_of_def variables_default_def)

lemma short_call_returns:
  "\<exists>r. loading env_quiet (Some ''out/'') False ''sherpaVsMG5'' (Some short_x0)
      (Some sample_x1) False False False False = Inr r"
  by (rule loading_assemble [where l = "\<lparr>l_variables = variables_default,
          l_legend = Some (''Sherpa'', ''MG5''), l_x0 = Some short_x0, l_x1 = Some sample_x1,
          l_rng = 0\<rparr>" and ua = short_x0 and ub = sample_x1])
    (simp_all add: load_samples_short split_x0_short env_quiet_permutation,
     simp_all add: env_quiet_def df_len_def short_x0_def sample_x1_def frame_of_def
       variables_default_def)

lemma preprocess_len_le:
  assumes "(if preprocessing then preprocess vs a b else Inr (a, b)) = Inr (u0, u1)"
  shows "df_len u1 \<le> df_len b \<and> (\<not> preprocessing \<longrightarrow> u1 = b)"
proof (cases preprocessing)
  case False
  with assms show ?thesis by simp
next
  case True
  with assms have p: "preprocess vs a b = Inr (u0, u1)" by simp
  from preprocess_Inr [OF p] obtain fa fb where
    f: "filter_columns vs a b = Inr (fa, fb)" "u1 = round_df fb"
    by blast
  have "subseq (rows fb) (rows b)"
    using filter_columns_Inr [OF f(1)] by simp
  then have "length (rows fb) \<le> length (rows b)"
    by (rule subseq_length_le)
  then show ?thesis
    using True f(2) by (simp add: df_len_def round_df_def)
qed







lemma renamed_call_fails:
  "loading env_quiet (Some ''out/'') False ''sherpaVsMG5'' (Some sample_x0) (Some renamed_x1)
     False False True True = Inl (KeyError ''Njets'')"
proof -
  have sp: "split_x0 env_quiet 0 False (Some sample_x0) (Some renamed_x1)
        = Inr (\<lparr>ncols = 6, arows = rows sample_x0\<rparr>, \<lparr>ncols = 6, arows = rows sample_x0\<rparr>,
               sample_x0, renamed_x1)"
    by (simp add: split_x0_def df_values_def head_rows_def tail_rows_def sample_x0_def
        renamed_x1_def frame_of_def variables_default_def)
  have co: "correlation_report env_quiet ''sherpaVsMG5'' variables_default sample_x0 = Inr ()"
    by (simp add: correlation_report_def env_quiet_def effect_def and_then_def
        variables_default_def sample_x0_def frame_of_def)
  have pp: "preprocess variables_default sample_x0 renamed_x1 = Inl (KeyError ''Njets'')"
    by (simp add: preprocess_def variables_default_def filter_column_def colindex_def
        and_then_def sample_x0_def renamed_x1_def frame_of_def)
  have mk: "effect (env_create_missing_folders env_quiet [''out/'' @ ''sherpaVsMG5'']) = Inr ()"
    by (simp add: env_quiet_def effect_def)
  have ld: "load_samples env_quiet ''sherpaVsMG5'' (Some sample_x0) (Some renamed_x1)
     = Inr \<lparr>l_variables = variables_default, l_legend = Some (''Sherpa'', ''MG5''),
            l_x0 = Some sample_x0, l_x1 = Some renamed_x1, l_rng = 0\<rparr>"
    by (simp add: load_samples_def)
  show ?thesis
    unfolding loading_def
    by (simp only: option.case mk and_then_def sum.case ld locals.select_convs sp prod.case
        if_True co pp)
qed

section \<open>Outlier bounds of the first table\<close>

text \<open>
  Claim C1: with preprocessing enabled, each table is filtered by bounds computed from its
  own column. The code overwrites the bounds derived from the first table by those of the
  second before using them (lines 132 to 135), so the first table is filtered by the second
  table's bounds. On \<open>sample_x0\<close> (values 100.125, 104.125, 108.125 in every column) and
  \<open>sample_x1\<close> (values 0.001, 4.001, 8.001) the code drops every row of the first table,
  whereas bounds taken from the first table itself keep all three.
\<close>

theorem preprocess_uses_second_table_bounds:
  "preprocess variables_default sample_x0 sample_x1
     = Inr (frame_of variables_default [], frame_of variables_default [0, 4, 8])
   \<and> preprocess_spec variables_default sample_x0 sample_x1
     = Inr (frame_of variables_default [10012 / 100, 10412 / 100, 10812 / 100],
            frame_of variables_default [0, 4, 8])"
  apply (simp add: preprocess_def preprocess_spec_def filter_columns_sample
      filter_columns_spec_sample_x0 filter_columns_spec_sample_x1 and_then_def)
  apply (simp add: round_df_def sample_x0_def sample_x1_def frame_of_def round2_def rint_def
      Let_def variables_default_def)
  done

section \<open>The output folder\<close>

text \<open>
  Claim C9: a call with \<open>folder = None\<close> fails at the concatenation \<open>folder + do\<close> of
  line 71, whatever the other arguments and the environment are, so no data is loaded and
  no array is computed; no call without a folder returns.
\<close>

theorem loading_without_folder_fails:
  "loading e None plot do x0 x1 randomize save correlation preprocessing = Inl TypeError
   \<and> (\<forall>r. loading e None plot do x0 x1 randomize save correlation preprocessing \<noteq> Inr r)"
  by (simp add: loading_def)

theorem loading_without_folder_fails_witness:
  "loading env_quiet None False ''sherpaVsMG5'' (Some sample_x0) (Some sample_x1)
     False False True True = Inl TypeError"
  using loading_without_folder_fails
    [of env_quiet False "''sherpaVsMG5''" "Some sample_x0" "Some sample_x1" False False True True]
  by simp

section \<open>Stacking and labels\<close>

text \<open>
  Claim C3: for every call that returns, the combined array is the class-0 block (the array
  saved as \<open>x0_train\<close>) stacked above the class-1 block (saved as \<open>x1_train\<close>), it has as
  many rows as the label vector, and the label vector is one zero per row of the class-0
  block followed by one one per row of the class-1 block.
\<close>

theorem labels_follow_stacked_blocks:
  assumes "loading e folder plot do x0 x1 randomize save correlation preprocessing = Inr r"
  shows "\<exists>f X0 X1.
           files r ! 1 = (f @ do @ ''/x0_train.npy'', X0)
         \<and> files r ! 2 = (f @ do @ ''/x1_train.npy'', X1)
         \<and> arows (ret_x r) = arows X0 @ arows X1
         \<and> length (arows (ret_x r)) = length (arows (ret_y r))
         \<and> arows (ret_y r) = replicate (length (arows X0)) [0] @ replicate (length (arows X1)) [1]"
proof -
  from loading_returns [OF assms] obtain f l X0 X0_test t0 t1 u0 u1 x
    where st: "vstack X0 (df_values u1) = Inr x" "ret_x r = x"
      "ret_y r = labels (length (arows x)) (length (arows X0))"
      "files r ! 1 = (f @ do @ ''/x0_train.npy'', X0)"
      "files r ! 2 = (f @ do @ ''/x1_train.npy'', df_values u1)"
    by auto
  have x: "arows x = arows X0 @ arows (df_values u1)"
    using vstack_Inr [OF st(1)] by simp
  have "arows (ret_y r) = replicate (length (arows X0)) [0] @ replicate (length (arows (df_values u1))) [1]"
    using labels_rows [of "length (arows X0)" "length (arows x)"] x st(3) by simp
  then show ?thesis
    using st x by simp
qed

theorem labels_follow_stacked_blocks_witness:
  "returned_file 1 (loading env_quiet (Some ''out/'') False ''sherpaVsMG5'' (Some sample_x0)
      (Some sample_x1) False False True True)
     = Inr (''out/sherpaVsMG5/x0_train.npy'', rows sample_x0)
   \<and> returned_file 2 (loading env_quiet (Some ''out/'') False ''sherpaVsMG5'' (Some sample_x0)
      (Some sample_x1) False False True True)
     = Inr (''out/sherpaVsMG5/x1_train.npy'', rows (frame_of variables_default [0, 4, 8]))
   \<and> returned_x (loading env_quiet (Some ''out/'') False ''sherpaVsMG5'' (Some sample_x0)
      (Some sample_x1) False False True True)
     = Inr (rows sample_x0 @ rows (frame_of variables_default [0, 4, 8]))
   \<and> returned_y (loading env_quiet (Some ''out/'') False ''sherpaVsMG5'' (Some sample_x0)
      (Some sample_x1) False False True True)
     = Inr [[0], [0], [0], [1], [1], [1]]"
proof -
  from sample_call_returns obtain r where
    r: "loading env_quiet (Some ''out/'') False ''sherpaVsMG5'' (Some sample_x0) (Some sample_x1)
          False False True True = Inr r"
    by blast
  from labels_follow_stacked_blocks [OF r] obtain f X0 X1 where
    c: "files r ! 1 = (f @ ''sherpaVsMG5'' @ ''/x0_train.npy'', X0)"
       "files r ! 2 = (f @ ''sherpaVsMG5'' @ ''/x1_train.npy'', X1)"
       "arows (ret_x r) = arows X0 @ arows X1"
       "arows (ret_y r) = replicate (length (arows X0)) [0] @ replicate (length (arows X1)) [1]"
    by blast
  from loading_returns_tables [OF r load_samples_sample] obtain g a b Y0 Y0_test u0 u1 where
    t: "Some ''out/'' = Some g" "Some sample_x0 = Some a" "Some sample_x1 = Some b"
       "split_x0 env_quiet 0 False (Some a) (Some b) = Inr (Y0, Y0_test, a, b)"
       "preprocess variables_default a b = Inr (u0, u1)"
       "files r ! 1 = (g @ ''sherpaVsMG5'' @ ''/x0_train.npy'', Y0)"
       "files r ! 2 = (g @ ''sherpaVsMG5'' @ ''/x1_train.npy'', df_values u1)"
    by auto
  have len: "df_len sample_x1 = 3" "length (rows sample_x0) = 3"
    by (simp_all add: df_len_def sample_x0_def sample_x1_def frame_of_def)
  have Y0: "arows Y0 = rows sample_x0"
    using split_x0_Inr [OF t(4)] t(2,3) len by simp
  have u1: "u1 = frame_of variables_default [0, 4, 8]"
    using t(2,3,5) by (simp add: preprocess_sample_value)
  have same: "f = ''out/''" "X0 = Y0" "X1 = df_values u1"
    using c(1,2) t(1,6,7) by simp_all
  have l3: "length (arows X0) = 3" "length (arows X1) = 3"
    using same Y0 u1 len by (simp_all add: df_values_def frame_of_def)
  have y: "arows (ret_y r) = [[0], [0], [0], [1], [1], [1]]"
    using c(4) l3 by (simp add: numeral_3_eq_3)
  have x: "arows (ret_x r) = rows sample_x0 @ rows (frame_of variables_default [0, 4, 8])"
    using c(3) same Y0 u1 by (simp add: df_values_def)
  show ?thesis
    using c(1,2) same Y0 u1 x y
    by (simp add: r returned_file_def returned_x_def returned_y_def df_values_def)
qed

section \<open>Row count of the combined array\<close>

text \<open>
  Claim C2 says that the combined array always has twice as many rows as the second table
  had at the start. Without randomization the class-0 block is the slice
  \<open>x0.values[:n_target]\<close>, which is shorter than \<open>n_target\<close> when the first table is: with
  a first table of one row and a second table of three rows the combined array has four
  rows, not six.
\<close>

theorem short_first_table_counterexample:
  "row_count (returned_x (loading env_quiet (Some ''out/'') False ''sherpaVsMG5''
      (Some short_x0) (Some sample_x1) False False False False)) = Inr 4
   \<and> 2 * df_len sample_x1 = 6"
proof -
  from short_call_returns obtain r where
    r: "loading env_quiet (Some ''out/'') False ''sherpaVsMG5'' (Some short_x0)
      (Some sample_x1) False False False False = Inr r"
    by blast
  from loading_returns_tables [OF r load_samples_short] split_x0_short
  have "arows (ret_x r) = rows short_x0 @ rows sample_x1"
    by auto
  then have "length (arows (ret_x r)) = 4"
    by (simp add: short_x0_def sample_x1_def frame_of_def)
  moreover have "df_len sample_x1 = 3"
    by (simp add: df_len_def sample_x1_def frame_of_def)
  ultimately show ?thesis
    by (simp add: r row_count_def returned_x_def)
qed

text \<open>
  Claim C2 as amended: for every scenario tag and every pair of tables (supplied or
  loaded), a call that returns yields a combined array whose row count is the row count of
  the class-0 block saved as \<open>x0_train\<close> (the target length with randomization, the smaller
  of the first table's row count and the target length without) plus the row count of the
  class-1 block saved as \<open>x1_train\<close> (the second table after preprocessing, never more than
  the target length), and a label vector of that same row count with one zero per class-0
  row followed by one one per class-1 row. When the first table has at least as many rows
  as the second or randomization is enabled, and preprocessing is disabled or removes no
  row of the second table, both row counts are twice the target length and the label
  vector changes from zero to one exactly at the midpoint.
\<close>

theorem balanced_row_count:
  assumes ret: "loading e folder plot do x0 x1 randomize save correlation preprocessing = Inr r"
    and ld: "load_samples e do x0 x1 = Inr l"
    and a: "l_x0 l = Some a" and b: "l_x1 l = Some b"
  shows "\<exists>f X0 u0 u1.
           (if preprocessing then preprocess (l_variables l) a b else Inr (a, b)) = Inr (u0, u1)
         \<and> files r ! 1 = (f @ do @ ''/x0_train.npy'', X0)
         \<and> files r ! 2 = (f @ do @ ''/x1_train.npy'', df_values u1)
         \<and> length (arows X0) = (if randomize then df_len b else min (df_len a) (df_len b))
         \<and> df_len u1 \<le> df_len b
         \<and> length (arows (ret_x r)) = length (arows X0) + df_len u1
         \<and> length (arows (ret_y r)) = length (arows X0) + df_len u1
         \<and> arows (ret_y r) = replicate (length (arows X0)) [0] @ replicate (df_len u1) [1]
         \<and> ((randomize \<or> df_len b \<le> df_len a) \<and> (preprocessing \<longrightarrow> df_len u1 = df_len b)
              \<longrightarrow> length (arows (ret_x r)) = 2 * df_len b
                \<and> length (arows (ret_y r)) = 2 * df_len b
                \<and> arows (ret_y r) = replicate (df_len b) [0] @ replicate (df_len b) [1])"
proof -
  from loading_returns_tables [OF ret ld] obtain f a' b' X0 X0_test u0 u1
    where st0: "folder = Some f \<and> l_x0 l = Some a' \<and> l_x1 l = Some b'
         \<and> split_x0 e (l_rng l) randomize (Some a') (Some b') = Inr (X0, X0_test, a', b')
         \<and> (if preprocessing then preprocess (l_variables l) a' b' else Inr (a', b')) = Inr (u0, u1)
         \<and> ncols X0 = length (columns u1)
         \<and> arows (ret_x r) = arows X0 @ rows u1
         \<and> arows (ret_y r) = replicate (length (arows X0)) [0] @ replicate (df_len u1) [1]
         \<and> files r ! 0 = (f @ do @ ''/x0_test.npy'', X0_test)
         \<and> files r ! 1 = (f @ do @ ''/x0_train.npy'', X0)
         \<and> files r ! 2 = (f @ do @ ''/x1_train.npy'', df_values u1)"
    by (elim exE)
  have ab: "a' = a" "b' = b"
    using st0 a b by simp_all
  have st: "split_x0 e (l_rng l) randomize (Some a) (Some b) = Inr (X0, X0_test, a, b)"
    "(if preprocessing then preprocess (l_variables l) a b else Inr (a, b)) = Inr (u0, u1)"
    "arows (ret_x r) = arows X0 @ rows u1"
    "arows (ret_y r) = replicate (length (arows X0)) [0] @ replicate (df_len u1) [1]"
    "files r ! 1 = (f @ do @ ''/x0_train.npy'', X0)"
    "files r ! 2 = (f @ do @ ''/x1_train.npy'', df_values u1)"
    using st0 unfolding ab by blast+
  have u1: "df_len u1 \<le> df_len b" "\<not> preprocessing \<longrightarrow> u1 = b"
    using preprocess_len_le [OF st(2)] by simp_all
  have X0: "length (arows X0) = (if randomize then df_len b else min (df_len a) (df_len b))"
    using split_x0_Inr [OF st(1)] by (cases randomize) (auto simp: df_len_def)
  have lx: "length (arows (ret_x r)) = length (arows X0) + df_len u1"
    using st(3) by (simp add: df_len_def)
  have ly: "length (arows (ret_y r)) = length (arows X0) + df_len u1"
    using st(4) by simp
  have bal: "(randomize \<or> df_len b \<le> df_len a) \<and> (preprocessing \<longrightarrow> df_len u1 = df_len b)
              \<longrightarrow> length (arows (ret_x r)) = 2 * df_len b
                \<and> length (arows (ret_y r)) = 2 * df_len b
                \<and> arows (ret_y r) = replicate (df_len b) [0] @ replicate (df_len b) [1]"
  proof
    assume h: "(randomize \<or> df_len b \<le> df_len a) \<and> (preprocessing \<longrightarrow> df_len u1 = df_len b)"
    have "df_len u1 = df_len b"
      using h u1(2) by (cases preprocessing) auto
    moreover have "length (arows X0) = df_len b"
      using X0 h by (cases randomize) auto
    ultimately show "length (arows (ret_x r)) = 2 * df_len b
                \<and> length (arows (ret_y r)) = 2 * df_len b
                \<and> arows (ret_y r) = replicate (df_len b) [0] @ replicate (df_len b) [1]"
      using lx ly st(4) by simp
  qed
  have "(if preprocessing then preprocess (l_variables l) a b else Inr (a, b)) = Inr (u0, u1)
         \<and> files r ! 1 = (f @ do @ ''/x0_train.npy'', X0)
         \<and> files r ! 2 = (f @ do @ ''/x1_train.npy'', df_values u1)
         \<and> length (arows X0) = (if randomize then df_len b else min (df_len a) (df_len b))
         \<and> df_len u1 \<le> df_len b
         \<and> length (arows (ret_x r)) = length (arows X0) + df_len u1
         \<and> length (arows (ret_y r)) = length (arows X0) + df_len u1
         \<and> arows (ret_y r) = replicate (length (arows X0)) [0] @ replicate (df_len u1) [1]
         \<and> ((randomize \<or> df_len b \<le> df_len a) \<and> (preprocessing \<longrightarrow> df_len u1 = df_len b)
              \<longrightarrow> length (arows (ret_x r)) = 2 * df_len b
                \<and> length (arows (ret_y r)) = 2 * df_len b
                \<and> arows (ret_y r) = replicate (df_len b) [0] @ replicate (df_len b) [1])"
    using st(2,5,6) X0 u1(1) lx ly st(4) bal by blast
  then show ?thesis
    by blast
qed

theorem balanced_row_count_witness:
  "row_count (returned_x (loading env_quiet (Some ''out/'') False ''sherpaVsMG5''
      (Some sample_x0) (Some sample_x1) False False True True)) = Inr 6
   \<and> returned_y (loading env_quiet (Some ''out/'') False ''sherpaVsMG5''
      (Some sample_x0) (Some sample_x1) False False True True)
     = Inr [[0], [0], [0], [1], [1], [1]]
   \<and> row_count (returned_x (loading env_quiet (Some ''out/'') False ''sherpaVsMG5''
      (Some short_x0) (Some sample_x1) False False False False)) = Inr (1 + 3)
   \<and> returned_y (loading env_quiet (Some ''out/'') False ''sherpaVsMG5''
      (Some short_x0) (Some sample_x1) False False False False)
     = Inr [[0], [1], [1], [1]]"
proof -
  from sample_call_returns obtain r where
    r: "loading env_quiet (Some ''out/'') False ''sherpaVsMG5'' (Some sample_x0) (Some sample_x1)
          False False True True = Inr r"
    by blast
  from short_call_returns obtain s where
    s: "loading env_quiet (Some ''out/'') False ''sherpaVsMG5'' (Some short_x0) (Some sample_x1)
          False False False False = Inr s"
    by blast
  have len: "df_len sample_x1 = 3" "df_len sample_x0 = 3" "df_len (round_df sample_x1) = 3"
    "df_len short_x0 = 1"
    by (simp_all add: df_len_def sample_x0_def sample_x1_def short_x0_def frame_of_def
        round_df_def)
  from balanced_row_count [OF r load_samples_sample, of sample_x0 sample_x1]
  have first: "length (arows (ret_x r)) = 6 \<and> arows (ret_y r) = [[0], [0], [0], [1], [1], [1]]"
    by (auto simp: len preprocess_sample numeral_3_eq_3)
  from balanced_row_count [OF s load_samples_short, of short_x0 sample_x1]
  have second: "length (arows (ret_x s)) = 4 \<and> arows (ret_y s) = [[0], [1], [1], [1]]"
    by (auto simp: len numeral_3_eq_3)
  show ?thesis
    using first second
    by (simp add: r s row_count_def returned_x_def returned_y_def)
qed

section \<open>Guarantees of the preprocessing step\<close>

text \<open>
  Claim C7: for every pair of tables and every sequence of columns, the preprocessing step
  (when it returns) never increases the row count of a table, keeps the surviving rows in
  their original order (the rows before rounding form a subsequence of the input rows), and
  leaves every value of the two tables it produces rounded to two decimal places, that is,
  a whole number of hundredths. Numbers are reals here; binary floating point is not
  modelled.
\<close>

theorem preprocess_shrinks_keeps_order_and_rounds:
  assumes "preprocess variables x0 x1 = Inr (u0, u1)"
  shows "df_len u0 \<le> df_len x0 \<and> df_len u1 \<le> df_len x1
       \<and> (\<exists>s0. subseq s0 (rows x0) \<and> rows u0 = map (map round2) s0)
       \<and> (\<exists>s1. subseq s1 (rows x1) \<and> rows u1 = map (map round2) s1)
       \<and> (\<forall>r \<in> set (rows u0) \<union> set (rows u1). \<forall>v \<in> set r. \<exists>k::int. v = of_int k / 100)"
proof -
  from preprocess_Inr [OF assms] obtain a b where
    f: "filter_columns variables x0 x1 = Inr (a, b)" and u: "u0 = round_df a" "u1 = round_df b"
    by blast
  have s: "subseq (rows a) (rows x0)" "subseq (rows b) (rows x1)"
    using filter_columns_Inr [OF f] by simp_all
  have r: "rows u0 = map (map round2) (rows a)" "rows u1 = map (map round2) (rows b)"
    using u by (simp_all add: round_df_def)
  have len: "df_len u0 \<le> df_len x0" "df_len u1 \<le> df_len x1"
    using subseq_length_le [OF s(1)] subseq_length_le [OF s(2)] r by (simp_all add: df_len_def)
  have rounded: "\<forall>r \<in> set (rows u0) \<union> set (rows u1). \<forall>v \<in> set r. \<exists>k::int. v = of_int k / 100"
    using r round2_hundredths by auto
  show ?thesis
    using len s r rounded by blast
qed

theorem preprocess_shrinks_keeps_order_and_rounds_witness:
  "df_len (frame_of variables_default []) \<le> df_len sample_x0
   \<and> df_len (frame_of variables_default [0, 4, 8]) \<le> df_len sample_x1
   \<and> (\<exists>s1. subseq s1 (rows sample_x1)
          \<and> rows (frame_of variables_default [0, 4, 8]) = map (map round2) s1)"
proof -
  have p: "preprocess variables_default sample_x0 sample_x1
     = Inr (frame_of variables_default [], frame_of variables_default [0, 4, 8])"
    by (rule preprocess_sample_value)
  from preprocess_shrinks_keeps_order_and_rounds [OF p] show ?thesis
    by blast
qed

section \<open>Class-0 rows and preprocessing\<close>

text \<open>
  Claim C10: with preprocessing enabled, the class-0 rows of the combined array and the
  saved \<open>x0_train\<close> and \<open>x0_test\<close> slices are rows of the first table as it stood before
  preprocessing (without randomization: its first and its last \<open>n_target\<close> rows), neither
  filtered nor rounded, whereas the class-1 rows are the rows of the second table that
  survive the column filters, rounded to two decimals.
\<close>

theorem class0_rows_bypass_preprocessing:
  assumes ret: "loading e folder plot do x0 x1 randomize save correlation True = Inr r"
  shows "\<exists>f l a b X0 X0_test f0 f1.
           load_samples e do x0 x1 = Inr l \<and> l_x0 l = Some a \<and> l_x1 l = Some b
         \<and> filter_columns (l_variables l) a b = Inr (f0, f1)
         \<and> files r ! 0 = (f @ do @ ''/x0_test.npy'', X0_test)
         \<and> files r ! 1 = (f @ do @ ''/x0_train.npy'', X0)
         \<and> arows (ret_x r) = arows X0 @ map (map round2) (rows f1)
         \<and> subseq (rows f1) (rows b)
         \<and> set (arows X0) \<subseteq> set (rows a) \<and> set (arows X0_test) \<subseteq> set (rows a)
         \<and> (\<not> randomize \<longrightarrow> arows X0 = take (df_len b) (rows a)
                           \<and> arows X0_test = tail_rows (df_len b) (rows a))"
proof -
  from loading_returns [OF ret] obtain l where ld: "load_samples e do x0 x1 = Inr l"
    by blast
  from loading_returns_tables [OF ret ld] obtain f a b X0 X0_test u0 u1
    where st: "l_x0 l = Some a" "l_x1 l = Some b"
      "split_x0 e (l_rng l) randomize (Some a) (Some b) = Inr (X0, X0_test, a, b)"
      "preprocess (l_variables l) a b = Inr (u0, u1)"
      "arows (ret_x r) = arows X0 @ rows u1"
      "files r ! 0 = (f @ do @ ''/x0_test.npy'', X0_test)"
      "files r ! 1 = (f @ do @ ''/x0_train.npy'', X0)"
    by auto
  from preprocess_Inr [OF st(4)] obtain f0 f1 where
    f: "filter_columns (l_variables l) a b = Inr (f0, f1)" "u1 = round_df f1"
    by blast
  have sub: "subseq (rows f1) (rows b)"
    using filter_columns_Inr [OF f(1)] by simp
  have x: "arows (ret_x r) = arows X0 @ map (map round2) (rows f1)"
    using st(5) f(2) by (simp add: round_df_def)
  show ?thesis
    using ld st(1,2,6,7) f(1) x sub split_x0_Inr [OF st(3)] by blast
qed

theorem class0_rows_bypass_preprocessing_witness:
  "returned_x (loading env_quiet (Some ''out/'') False ''sherpaVsMG5''
      (Some sample_x0) (Some sample_x1) False False True True)
     = Inr (rows sample_x0 @ rows (frame_of variables_default [0, 4, 8]))"
proof -
  from sample_call_returns obtain r where
    r: "loading env_quiet (Some ''out/'') False ''sherpaVsMG5'' (Some sample_x0) (Some sample_x1)
          False False True True = Inr r"
    by blast
  have len: "df_len sample_x1 = 3" "length (rows sample_x0) = 3"
    by (simp_all add: df_len_def sample_x0_def sample_x1_def frame_of_def)
  have rounded: "map (map round2) (rows sample_x1) = rows (frame_of variables_default [0, 4, 8])"
    by (simp add: sample_x1_def frame_of_def round2_def rint_def Let_def variables_default_def)
  from class0_rows_bypass_preprocessing [OF r]
  have "arows (ret_x r) = rows sample_x0 @ rows (frame_of variables_default [0, 4, 8])"
    by (auto simp: load_samples_sample filter_columns_sample len rounded)
  then show ?thesis
    by (simp add: r returned_x_def)
qed

section \<open>Train, validation and test partitions\<close>

text \<open>
  Claim C5: the partitions come from two calls of \<open>train_test_split\<close> with the seed 42, the
  first holding out the fraction 0.40 of the combined set as test rows, the second holding
  out the fraction 0.50 of the remainder as validation rows. For a seeded permutation of
  the right length, the row counts of the saved \<open>X_test\<close>, \<open>X_val\<close> and \<open>X_train\<close> arrays
  are \<open>\<lceil>0.4 n\<rceil>\<close>, \<open>\<lceil>0.5 (n - \<lceil>0.4 n\<rceil>)\<rceil>\<close> and the rest, where \<open>n\<close> is the row count of the
  combined array; they sum to \<open>n\<close> and depend on \<open>n\<close> only.
\<close>

theorem two_stage_split_counts:
  assumes ret: "loading e folder plot do x0 x1 randomize save correlation preprocessing = Inr r"
    and perm: "\<And>n. length (env_permutation42 e n) = n"
  shows "\<exists>f X_train X_val X_test X_rest y_rest y_train y_val y_test n_test n_val.
           train_test_split e (ret_x r) (ret_y r) (2 / 5) = Inr (X_rest, X_test, y_rest, y_test)
         \<and> train_test_split e X_rest y_rest (1 / 2) = Inr (X_train, X_val, y_train, y_val)
         \<and> files r ! 3 = (f @ do @ ''/X_train.npy'', X_train)
         \<and> files r ! 7 = (f @ do @ ''/X_val.npy'', X_val)
         \<and> files r ! 6 = (f @ do @ ''/X_test.npy'', X_test)
         \<and> n_test = nat \<lceil>2 / 5 * real (length (arows (ret_x r)))\<rceil>
         \<and> n_val = nat \<lceil>1 / 2 * real (length (arows (ret_x r)) - n_test)\<rceil>
         \<and> length (arows X_test) = n_test
         \<and> length (arows X_val) = n_val
         \<and> length (arows X_train) = length (arows (ret_x r)) - n_test - n_val
         \<and> length (arows X_train) + length (arows X_val) + length (arows X_test)
             = length (arows (ret_x r))"
proof -
  from loading_returns [OF ret] obtain f l X0 X0_test t0 t1 u0 u1 x X_rest X_test y_rest y_test
      X_train X_val y_train y_val
    where st0: "ret_x r = x" "ret_y r = labels (length (arows x)) (length (arows X0))"
      "train_test_split e x (labels (length (arows x)) (length (arows X0))) (2 / 5)
         = Inr (X_rest, X_test, y_rest, y_test)"
      "train_test_split e X_rest y_rest (1 / 2) = Inr (X_train, X_val, y_train, y_val)"
      and fl: "files r =
                 [(f @ do @ ''/x0_test.npy'', X0_test),
                  (f @ do @ ''/x0_train.npy'', X0),
                  (f @ do @ ''/x1_train.npy'', df_values u1),
                  (f @ do @ ''/X_train.npy'', X_train),
                  (f @ do @ ''/x_train.npy'', x),
                  (f @ do @ ''/y_train.npy'', labels (length (arows x)) (length (arows X0))),
                  (f @ do @ ''/X_test.npy'', X_test),
                  (f @ do @ ''/X_val.npy'', X_val),
                  (f @ do @ ''/Y_train.npy'', y_train),
                  (f @ do @ ''/Y_test.npy'', y_test),
                  (f @ do @ ''/Y_val.npy'', y_val)]"
    by blast
  have st: "ret_x r = x" "ret_y r = labels (length (arows x)) (length (arows X0))"
      "train_test_split e x (labels (length (arows x)) (length (arows X0))) (2 / 5)
         = Inr (X_rest, X_test, y_rest, y_test)"
      "train_test_split e X_rest y_rest (1 / 2) = Inr (X_train, X_val, y_train, y_val)"
      "files r ! 3 = (f @ do @ ''/X_train.npy'', X_train)"
      "files r ! 7 = (f @ do @ ''/X_val.npy'', X_val)"
      "files r ! 6 = (f @ do @ ''/X_test.npy'', X_test)"
    using st0 by (simp_all add: fl)
  define n where "n = length (arows x)"
  define n_test where "n_test = nat \<lceil>2 / 5 * real n\<rceil>"
  define n_val where "n_val = nat \<lceil>1 / 2 * real (n - n_test)\<rceil>"
  have l1: "length (arows X_test) = n_test" "length (arows X_rest) = n - n_test"
    using train_test_split_lengths [OF st(3) perm] by (simp_all add: n_def n_test_def)
  have l2: "length (arows X_val) = n_val" "length (arows X_train) = n - n_test - n_val"
    using train_test_split_lengths [OF st(4) perm] l1 by (simp_all add: n_val_def)
  have "0 < length (arows X_rest)" "0 < length (arows X_train)"
    using train_test_split_lengths [OF st(3) perm] train_test_split_lengths [OF st(4) perm]
    by blast+
  then have total: "length (arows X_train) + length (arows X_val) + length (arows X_test) = n"
    using l1 l2 by linarith
  have "train_test_split e (ret_x r) (ret_y r) (2 / 5) = Inr (X_rest, X_test, y_rest, y_test)
         \<and> train_test_split e X_rest y_rest (1 / 2) = Inr (X_train, X_val, y_train, y_val)
         \<and> files r ! 3 = (f @ do @ ''/X_train.npy'', X_train)
         \<and> files r ! 7 = (f @ do @ ''/X_val.npy'', X_val)
         \<and> files r ! 6 = (f @ do @ ''/X_test.npy'', X_test)
         \<and> n_test = nat \<lceil>2 / 5 * real (length (arows (ret_x r)))\<rceil>
         \<and> n_val = nat \<lceil>1 / 2 * real (length (arows (ret_x r)) - n_test)\<rceil>
         \<and> length (arows X_test) = n_test
         \<and> length (arows X_val) = n_val
         \<and> length (arows X_train) = length (arows (ret_x r)) - n_test - n_val
         \<and> length (arows X_train) + length (arows X_val) + length (arows X_test)
             = length (arows (ret_x r))"
    using st l1(1) l2 total by (simp add: n_def n_test_def n_val_def)
  then show ?thesis
    by blast
qed

theorem two_stage_split_counts_witness:
  "returned_file_rows 3 (loading env_quiet (Some ''out/'') False ''sherpaVsMG5''
      (Some sample_x0) (Some sample_x1) False False True True) = Inr 1
   \<and> returned_file_rows 7 (loading env_quiet (Some ''out/'') False ''sherpaVsMG5''
      (Some sample_x0) (Some sample_x1) False False True True) = Inr 2
   \<and> returned_file_rows 6 (loading env_quiet (Some ''out/'') False ''sherpaVsMG5''
      (Some sample_x0) (Some sample_x1) False False True True) = Inr 3
   \<and> row_count (returned_x (loading env_quiet (Some ''out/'') False ''sherpaVsMG5''
      (Some sample_x0) (Some sample_x1) False False True True)) = Inr 6"
proof -
  from sample_call_returns obtain r where
    r: "loading env_quiet (Some ''out/'') False ''sherpaVsMG5'' (Some sample_x0) (Some sample_x1)
          False False True True = Inr r"
    by blast
  have c: "nat \<lceil>2 / 5 * real 6\<rceil> = 3" "nat \<lceil>1 / 2 * real (6 - 3)\<rceil> = 2"
    by simp_all
  from two_stage_split_counts [OF r] env_quiet_permutation sample_call_rows [OF r] c
  show ?thesis
    by (auto simp: r returned_file_rows_def row_count_def returned_x_def)
qed

section \<open>The generator-comparison scenario with 1000 and 400 rows\<close>

text \<open>
  Claim C4 says that with the scenario \<open>sherpaVsMG5\<close>, a first table of 1000 rows, a second
  table of 400 rows and no randomization, the combined array has 800 rows. With
  preprocessing enabled (the default) the second table is filtered before it is stacked:
  when every column of the second table is constant, the standard deviation is zero, the
  strict bounds exclude every row, and the combined array has the 400 class-0 rows only.
\<close>

theorem filtered_second_table_counterexample:
  "row_count (returned_x (loading env_quiet (Some ''out/'') False ''sherpaVsMG5''
      (Some big_x0) (Some big_x1) False False True True)) = Inr 400
   \<and> df_len big_x0 = 1000 \<and> df_len big_x1 = 400"
proof -
  from big_call_returns [of True] obtain r where
    r: "loading env_quiet (Some ''out/'') False ''sherpaVsMG5'' (Some big_x0) (Some big_x1)
          False False True True = Inr r"
    by blast
  from loading_returns_tables [OF r load_samples_big]
  have "length (arows (ret_x r)) = 400"
    by (auto simp: split_x0_big preprocess_big frame_of_def)
  then show ?thesis
    by (simp add: r row_count_def returned_x_def df_len_def big_rows)
qed

text \<open>
  Claim C4 as amended: with the scenario \<open>sherpaVsMG5\<close>, a first table of 1000 rows, a second
  table of 400 rows and no randomization, every call that returns saves the first 400 rows
  of the first table as \<open>x0_train\<close> and its last 400 rows as \<open>x0_test\<close>, each of 400 rows;
  the combined array has 400 rows plus the rows of the second table that survive
  preprocessing (at most 400), and the label vector is 400 zeros followed by one one per
  surviving row. When preprocessing is disabled or removes no row of the second table, the
  combined array has 800 rows and the label vector is 400 zeros followed by 400 ones.
\<close>

theorem generator_comparison_slices:
  assumes ret: "loading e folder plot do (Some a) (Some b) False save correlation
                  preprocessing = Inr r"
    and sc: "do = ''sherpaVsMG5''"
    and a: "df_len a = 1000" and b: "df_len b = 400"
  shows "\<exists>f X0 X0_test u0 u1.
           files r ! 1 = (f @ do @ ''/x0_train.npy'', X0)
         \<and> files r ! 0 = (f @ do @ ''/x0_test.npy'', X0_test)
         \<and> arows X0 = take 400 (rows a) \<and> arows X0_test = drop 600 (rows a)
         \<and> length (arows X0) = 400 \<and> length (arows X0_test) = 400
         \<and> (if preprocessing then preprocess variables_default a b else Inr (a, b)) = Inr (u0, u1)
         \<and> files r ! 2 = (f @ do @ ''/x1_train.npy'', df_values u1)
         \<and> df_len u1 \<le> 400
         \<and> length (arows (ret_x r)) = 400 + df_len u1
         \<and> arows (ret_y r) = replicate 400 [0] @ replicate (df_len u1) [1]
         \<and> ((preprocessing \<longrightarrow> df_len u1 = 400)
              \<longrightarrow> length (arows (ret_x r)) = 800
                \<and> arows (ret_y r) = replicate 400 [0] @ replicate 400 [1])"
proof -
  define l where "l = \<lparr>l_variables = variables_default, l_legend = Some (''Sherpa'', ''MG5''),
            l_x0 = Some a, l_x1 = Some b, l_rng = 0\<rparr>"
  have ld: "load_samples e do (Some a) (Some b) = Inr l"
    by (simp add: load_samples_def sc l_def)
  from loading_returns_tables [OF ret ld] obtain f a' b' X0 X0_test u0 u1
    where st0: "folder = Some f \<and> l_x0 l = Some a' \<and> l_x1 l = Some b'
         \<and> split_x0 e (l_rng l) False (Some a') (Some b') = Inr (X0, X0_test, a', b')
         \<and> (if preprocessing then preprocess (l_variables l) a' b' else Inr (a', b')) = Inr (u0, u1)
         \<and> ncols X0 = length (columns u1)
         \<and> arows (ret_x r) = arows X0 @ rows u1
         \<and> arows (ret_y r) = replicate (length (arows X0)) [0] @ replicate (df_len u1) [1]
         \<and> files r ! 0 = (f @ do @ ''/x0_test.npy'', X0_test)
         \<and> files r ! 1 = (f @ do @ ''/x0_train.npy'', X0)
         \<and> files r ! 2 = (f @ do @ ''/x1_train.npy'', df_values u1)"
    by (elim exE)
  have ab: "a' = a" "b' = b"
    using st0 by (simp_all add: l_def)
  have lv: "l_variables l = variables_default"
    by (simp add: l_def)
  have st: "split_x0 e (l_rng l) False (Some a) (Some b) = Inr (X0, X0_test, a, b)"
    "(if preprocessing then preprocess variables_default a b else Inr (a, b)) = Inr (u0, u1)"
    "arows (ret_x r) = arows X0 @ rows u1"
    "arows (ret_y r) = replicate (length (arows X0)) [0] @ replicate (df_len u1) [1]"
    "files r ! 0 = (f @ do @ ''/x0_test.npy'', X0_test)"
    "files r ! 1 = (f @ do @ ''/x0_train.npy'', X0)"
    "files r ! 2 = (f @ do @ ''/x1_train.npy'', df_values u1)"
    using st0 unfolding ab lv by blast+
  have u1: "df_len u1 \<le> 400" "\<not> preprocessing \<longrightarrow> u1 = b"
    using preprocess_len_le [OF st(2)] b by simp_all
  have "rows b \<noteq> []"
    using b by (auto simp: df_len_def)
  then have X0: "arows X0 = take 400 (rows a)" "arows X0_test = drop 600 (rows a)"
    using split_x0_Inr [OF st(1)] a b by (simp_all add: tail_rows_def df_len_def)
  have len: "length (arows X0) = 400" "length (arows X0_test) = 400"
    using X0 a by (simp_all add: df_len_def)
  have lx: "length (arows (ret_x r)) = 400 + df_len u1"
    using st(3) len by (simp add: df_len_def)
  have ly: "arows (ret_y r) = replicate 400 [0] @ replicate (df_len u1) [1]"
    using st(4) len by simp
  have full: "(preprocessing \<longrightarrow> df_len u1 = 400)
              \<longrightarrow> length (arows (ret_x r)) = 800
                \<and> arows (ret_y r) = replicate 400 [0] @ replicate 400 [1]"
  proof
    assume h: "preprocessing \<longrightarrow> df_len u1 = 400"
    have "df_len u1 = 400"
      using h u1(2) b by (cases preprocessing) auto
    then show "length (arows (ret_x r)) = 800
                \<and> arows (ret_y r) = replicate 400 [0] @ replicate 400 [1]"
      using lx ly by simp
  qed
  have "files r ! 1 = (f @ do @ ''/x0_train.npy'', X0)
         \<and> files r ! 0 = (f @ do @ ''/x0_test.npy'', X0_test)
         \<and> arows X0 = take 400 (rows a) \<and> arows X0_test = drop 600 (rows a)
         \<and> length (arows X0) = 400 \<and> length (arows X0_test) = 400
         \<and> (if preprocessing then preprocess variables_default a b else Inr (a, b)) = Inr (u0, u1)
         \<and> files r ! 2 = (f @ do @ ''/x1_train.npy'', df_values u1)
         \<and> df_len u1 \<le> 400
         \<and> length (arows (ret_x r)) = 400 + df_len u1
         \<and> arows (ret_y r) = replicate 400 [0] @ replicate (df_len u1) [1]
         \<and> ((preprocessing \<longrightarrow> df_len u1 = 400)
              \<longrightarrow> length (arows (ret_x r)) = 800
                \<and> arows (ret_y r) = replicate 400 [0] @ replicate 400 [1])"
    using st(2,5,6,7) X0 len u1(1) lx ly full by blast
  then show ?thesis
    by blast
qed

theorem generator_comparison_slices_witness:
  "row_count (returned_x (loading env_quiet (Some ''out/'') False ''sherpaVsMG5''
      (Some big_x0) (Some big_x1) False False True False)) = Inr 800
   \<and> returned_y (loading env_quiet (Some ''out/'') False ''sherpaVsMG5''
      (Some big_x0) (Some big_x1) False False True False)
     = Inr (replicate 400 [0] @ replicate 400 [1])
   \<and> returned_file_rows 0 (loading env_quiet (Some ''out/'') False ''sherpaVsMG5''
      (Some big_x0) (Some big_x1) False False True False) = Inr 400
   \<and> returned_file_rows 1 (loading env_quiet (Some ''out/'') False ''sherpaVsMG5''
      (Some big_x0) (Some big_x1) False False True False) = Inr 400
   \<and> row_count (returned_x (loading env_quiet (Some ''out/'') False ''sherpaVsMG5''
      (Some big_x0) (Some big_x1) False False True True)) = Inr (400 + 0)
   \<and> returned_y (loading env_quiet (Some ''out/'') False ''sherpaVsMG5''
      (Some big_x0) (Some big_x1) False False True True)
     = Inr (replicate 400 [0])
   \<and> returned_file_rows 0 (loading env_quiet (Some ''out/'') False ''sherpaVsMG5''
      (Some big_x0) (Some big_x1) False False True True) = Inr 400
   \<and> returned_file_rows 1 (loading env_quiet (Some ''out/'') False ''sherpaVsMG5''
      (Some big_x0) (Some big_x1) False False True True) = Inr 400"
proof -
  from big_call_returns [of False] obtain r where
    r: "loading env_quiet (Some ''out/'') False ''sherpaVsMG5'' (Some big_x0) (Some big_x1)
          False False True False = Inr r"
    by blast
  from big_call_returns [of True] obtain s where
    s: "loading env_quiet (Some ''out/'') False ''sherpaVsMG5'' (Some big_x0) (Some big_x1)
          False False True True = Inr s"
    by blast
  have len: "df_len big_x0 = 1000" "df_len big_x1 = 400"
    "df_len (frame_of variables_default []) = 0"
    by (simp_all add: df_len_def big_rows frame_of_def)
  from generator_comparison_slices [OF r refl len(1,2)]
  have first: "length (arows (ret_x r)) = 800
      \<and> arows (ret_y r) = replicate 400 [0] @ replicate 400 [1]
      \<and> length (arows (snd (files r ! 0))) = 400 \<and> length (arows (snd (files r ! 1))) = 400"
    by auto
  from generator_comparison_slices [OF s refl len(1,2)]
  have second: "length (arows (ret_x s)) = 400
      \<and> arows (ret_y s) = replicate 400 [0]
      \<and> length (arows (snd (files s ! 0))) = 400 \<and> length (arows (snd (files s ! 1))) = 400"
    by (auto simp: preprocess_big len(3))
  show ?thesis
    using first second
    by (simp add: r s row_count_def returned_x_def returned_y_def returned_file_rows_def)
qed

section \<open>Resampling in the scale-variation scenario\<close>

text \<open>
  Claim C6 says that the number of resampled rows is the rounded sum of the weight column.
  Lines 94 and 95 pass \<open>int(np.sum(...))\<close> as the size, which truncates: with the weights
  0.9 and 0.9 in both files the sum 1.8 rounds to 2, whereas one row is drawn per table.
\<close>

theorem truncated_resample_count_counterexample:
  "and_then (env_load env_files mur1_file [''truthWeight'']) truthWeight = Inr [9 / 10, 9 / 10]
   \<and> and_then (env_load env_files mur2_file [''truthWeight'']) truthWeight = Inr [9 / 10, 9 / 10]
   \<and> round (sum_list [9 / 10, 9 / 10 :: real]) = 2
   \<and> resampled_rows (load_mur env_files) = Inr (1, 1)"
  by (simp add: load_mur_env_files resampled_rows_def df_len_def)
    (simp add: env_files_def env_quiet_def and_then_def truthWeight_def column_values_def
      round_def)

text \<open>
  Claim C6 as amended: in the scenario \<open>mur\<close> with tables loaded from source, when the
  resampling returns, each weight column divided by its sum is a probability distribution
  over the rows of its table (non-negative entries that sum to one, one entry per row),
  the number of drawn indices is the sum of the unnormalized weights truncated towards zero,
  every drawn index is below the row count of the table it indexes, and the resampled tables
  hold the rows at the drawn indices. Lemma \<open>choice_p_in_bounds\<close> shows in addition that the
  weighted draw itself stays within bounds for uniform samples below one.
\<close>

theorem mur_resampling:
  assumes "load_mur e = Inr (a, b, pos)"
  shows "\<exists>x0 x1 wx0 wx1 w0 w1 p0 p1 i0 i1.
           env_load e mur1_file variables_default = Inr x0
         \<and> env_load e mur2_file variables_default = Inr x1
         \<and> env_load e mur1_file [''truthWeight''] = Inr wx0
         \<and> env_load e mur2_file [''truthWeight''] = Inr wx1
         \<and> truthWeight wx0 = Inr w0 \<and> truthWeight wx1 = Inr w1
         \<and> p0 = map (\<lambda>v. v / sum_list w0) w0 \<and> p1 = map (\<lambda>v. v / sum_list w1) w1
         \<and> sum_list p0 = 1 \<and> sum_list p1 = 1
         \<and> (\<forall>v \<in> set p0. 0 \<le> v) \<and> (\<forall>v \<in> set p1. 0 \<le> v)
         \<and> length p0 = df_len x0 \<and> length p1 = df_len x1
         \<and> draw_indices e 0 x0 w0 = Inr i0 \<and> draw_indices e (length i0) x1 w1 = Inr i1
         \<and> int (length i0) = int_trunc (sum_list w0)
         \<and> int (length i1) = int_trunc (sum_list w1)
         \<and> (\<forall>i \<in> set i0. i < df_len x0) \<and> (\<forall>i \<in> set i1. i < df_len x1)
         \<and> rows a = map (\<lambda>i. rows x0 ! i) i0 \<and> rows b = map (\<lambda>i. rows x1 ! i) i1"
proof -
  from load_mur_Inr [OF assms] obtain x0 x1 wx0 wx1 w0 w1 i0 i1 where
    st: "env_load e mur1_file variables_default = Inr x0"
      "env_load e mur2_file variables_default = Inr x1"
      "env_load e mur1_file [''truthWeight''] = Inr wx0"
      "env_load e mur2_file [''truthWeight''] = Inr wx1"
      "truthWeight wx0 = Inr w0" "truthWeight wx1 = Inr w1"
      and d: "draw_indices e 0 x0 w0 = Inr i0" "draw_indices e (length i0) x1 w1 = Inr i1"
      and il: "iloc x0 i0 = Inr a" "iloc x1 i1 = Inr b"
    by blast
  define p0 where "p0 = map (\<lambda>v. v / sum_list w0) w0"
  define p1 where "p1 = map (\<lambda>v. v / sum_list w1) w1"
  have f0: "sum_list p0 = 1" "\<forall>v \<in> set p0. 0 \<le> v" "length p0 = df_len x0"
    "int (length i0) = int_trunc (sum_list w0)"
    using draw_indices_Inr [OF d(1)] by (simp_all add: p0_def)
  have f1: "sum_list p1 = 1" "\<forall>v \<in> set p1. 0 \<le> v" "length p1 = df_len x1"
    "int (length i1) = int_trunc (sum_list w1)"
    using draw_indices_Inr [OF d(2)] by (simp_all add: p1_def)
  have b0: "\<forall>i \<in> set i0. i < df_len x0" "rows a = map (\<lambda>i. rows x0 ! i) i0"
    using iloc_Inr [OF il(1)] by simp_all
  have b1: "\<forall>i \<in> set i1. i < df_len x1" "rows b = map (\<lambda>i. rows x1 ! i) i1"
    using iloc_Inr [OF il(2)] by simp_all
  have "env_load e mur1_file variables_default = Inr x0
         \<and> env_load e mur2_file variables_default = Inr x1
         \<and> env_load e mur1_file [''truthWeight''] = Inr wx0
         \<and> env_load e mur2_file [''truthWeight''] = Inr wx1
         \<and> truthWeight wx0 = Inr w0 \<and> truthWeight wx1 = Inr w1
         \<and> p0 = map (\<lambda>v. v / sum_list w0) w0 \<and> p1 = map (\<lambda>v. v / sum_list w1) w1
         \<and> sum_list p0 = 1 \<and> sum_list p1 = 1
         \<and> (\<forall>v \<in> set p0. 0 \<le> v) \<and> (\<forall>v \<in> set p1. 0 \<le> v)
         \<and> length p0 = df_len x0 \<and> length p1 = df_len x1
         \<and> draw_indices e 0 x0 w0 = Inr i0 \<and> draw_indices e (length i0) x1 w1 = Inr i1
         \<and> int (length i0) = int_trunc (sum_list w0)
         \<and> int (length i1) = int_trunc (sum_list w1)
         \<and> (\<forall>i \<in> set i0. i < df_len x0) \<and> (\<forall>i \<in> set i1. i < df_len x1)
         \<and> rows a = map (\<lambda>i. rows x0 ! i) i0 \<and> rows b = map (\<lambda>i. rows x1 ! i) i1"
    using st d f0 f1 b0 b1 p0_def p1_def by simp
  then show ?thesis
    by blast
qed

theorem mur_resampling_witness:
  "resampled_rows (load_mur env_files)
     = Inr (nat (int_trunc (sum_list [9 / 10, 9 / 10])), nat (int_trunc (sum_list [9 / 10, 9 / 10])))"
proof -
  define a where "a = \<lparr>columns = variables_default, rows = [map (\<lambda>_. 9 / 10 :: real) variables_default]\<rparr>"
  have lm: "load_mur env_files = Inr (a, a, 2)"
    by (simp add: load_mur_env_files a_def)
  from mur_resampling [OF lm] obtain x0 x1 wx0 wx1 w0 w1 p0 p1 i0 i1 where
    "env_load env_files mur1_file variables_default = Inr x0
         \<and> env_load env_files mur2_file variables_default = Inr x1
         \<and> env_load env_files mur1_file [''truthWeight''] = Inr wx0
         \<and> env_load env_files mur2_file [''truthWeight''] = Inr wx1
         \<and> truthWeight wx0 = Inr w0 \<and> truthWeight wx1 = Inr w1
         \<and> p0 = map (\<lambda>v. v / sum_list w0) w0 \<and> p1 = map (\<lambda>v. v / sum_list w1) w1
         \<and> sum_list p0 = 1 \<and> sum_list p1 = 1
         \<and> (\<forall>v \<in> set p0. 0 \<le> v) \<and> (\<forall>v \<in> set p1. 0 \<le> v)
         \<and> length p0 = df_len x0 \<and> length p1 = df_len x1
         \<and> draw_indices env_files 0 x0 w0 = Inr i0
         \<and> draw_indices env_files (length i0) x1 w1 = Inr i1
         \<and> int (length i0) = int_trunc (sum_list w0)
         \<and> int (length i1) = int_trunc (sum_list w1)
         \<and> (\<forall>i \<in> set i0. i < df_len x0) \<and> (\<forall>i \<in> set i1. i < df_len x1)
         \<and> rows a = map (\<lambda>i. rows x0 ! i) i0 \<and> rows a = map (\<lambda>i. rows x1 ! i) i1"
    by (elim exE)
  then have
    w: "env_load env_files mur1_file [''truthWeight''] = Inr wx0" "truthWeight wx0 = Inr w0"
       "env_load env_files mur2_file [''truthWeight''] = Inr wx1" "truthWeight wx1 = Inr w1"
    and n: "int (length i0) = int_trunc (sum_list w0)" "int (length i1) = int_trunc (sum_list w1)"
    and r: "rows a = map (\<lambda>i. rows x0 ! i) i0" "rows a = map (\<lambda>i. rows x1 ! i) i1"
    by blast+
  have "wx0 = \<lparr>columns = [''truthWeight''], rows = [[9 / 10], [9 / 10]]\<rparr>"
    "wx1 = \<lparr>columns = [''truthWeight''], rows = [[9 / 10], [9 / 10]]\<rparr>"
    using w(1,3) by (simp_all add: env_files_def env_quiet_def)
  then have w01: "w0 = [9 / 10, 9 / 10]" "w1 = [9 / 10, 9 / 10]"
    using w(2,4) by (simp_all add: truthWeight_def column_values_def)
  have "length (rows a) = length (map (\<lambda>i. rows x0 ! i) i0)"
    by (simp only: r(1))
  then have "df_len a = length i0"
    by (simp add: df_len_def)
  then have "df_len a = nat (int_trunc (sum_list [9 / 10, 9 / 10]))"
    using n(1) w01(1) by simp
  then show ?thesis
    by (simp add: lm resampled_rows_def)
qed

section \<open>Tables that disagree on their columns\<close>




end
